theory Spec2Isabelle
  imports Main "HOL-Library.Word" "HOL-Library.Signed_Division"
begin

unbundle bit_operations_syntax

section \<open>Machine types\<close>

text \<open>
  The sources fix their integer widths themselves (\<^verbatim>\<open>typedef unsigned char __u8\<close> and so on
  in \<^verbatim>\<open>kernel_debugger.bpf.c\<close>).  The front end targets 64-bit RISC-V, where
  \<^verbatim>\<open>unsigned long\<close> has 64 bits and \<^verbatim>\<open>int\<close> has 32.
\<close>

type_synonym u8 = "8 word"
type_synonym u32 = "32 word"
type_synonym u64 = "64 word"
type_synonym c_int = "32 word"

text \<open>The terminating byte of a C string.\<close>

abbreviation NUL :: char where
  "NUL \<equiv> CHR 0x00"

text \<open>A string literal of the source is the array of its characters and the terminator.\<close>

definition c_literal :: "string \<Rightarrow> char list" where
  "c_literal s = s @ [NUL]"

section \<open>The front end: \<^verbatim>\<open>kernel_debugger_tui.c\<close>\<close>

subsection \<open>Data\<close>

datatype debug_state_t = DEBUG_STOPPED | DEBUG_RUNNING | DEBUG_STEPPING | DEBUG_BREAKPOINT

text \<open>
  \<^verbatim>\<open>breakpoint_t\<close> is a singly linked list node; the list hanging off the context is the
  HOL list of its nodes, the \<^verbatim>\<open>next\<close> pointer being the tail.
\<close>

record breakpoint =
  addr :: u64
  enabled :: c_int
  symbol :: "char list"

text \<open>
  \<^verbatim>\<open>riscv_regs_t\<close> is a struct of 32 fields of the one type \<^verbatim>\<open>unsigned long\<close>:
  a function from the field names.
\<close>

datatype riscv_reg =
    PC | RA | SP | GP | TP
  | T0 | T1 | T2
  | S0 | S1
  | A0 | A1 | A2 | A3 | A4 | A5 | A6 | A7
  | S2 | S3 | S4 | S5 | S6 | S7 | S8 | S9 | S10 | S11
  | T3 | T4 | T5 | T6

type_synonym riscv_regs_t = "riscv_reg \<Rightarrow> u64"

text \<open>The enumeration counts its own members with a last enumerator.\<close>

datatype window_focus_t =
    FOCUS_REGISTERS | FOCUS_VARIABLES | FOCUS_STACK | FOCUS_CODE | FOCUS_MEMORY
  | FOCUS_COMMAND | FOCUS_COUNT

fun focus_num :: "window_focus_t \<Rightarrow> nat" where
  "focus_num FOCUS_REGISTERS = 0"
| "focus_num FOCUS_VARIABLES = 1"
| "focus_num FOCUS_STACK = 2"
| "focus_num FOCUS_CODE = 3"
| "focus_num FOCUS_MEMORY = 4"
| "focus_num FOCUS_COMMAND = 5"
| "focus_num FOCUS_COUNT = 6"

definition focus_of_num :: "nat \<Rightarrow> window_focus_t" where
  "focus_of_num n =
     (if n = 0 then FOCUS_REGISTERS else if n = 1 then FOCUS_VARIABLES
      else if n = 2 then FOCUS_STACK else if n = 3 then FOCUS_CODE
      else if n = 4 then FOCUS_MEMORY else if n = 5 then FOCUS_COMMAND
      else FOCUS_COUNT)"

text \<open>
  \<^verbatim>\<open>debugger_ctx_t\<close>.  The curses windows and panels, the perf mapping, the thread handle
  and the mutex object are handles of the terminal and the operating system; the fields
  below are the ones the program computes with.
\<close>

record debugger_ctx =
  state :: debug_state_t
  bpf_fd :: int
  perf_fd :: int
  bpf_loaded :: int
  regs :: riscv_regs_t
  breakpoints :: "breakpoint list"
  current_function :: "char list"
  current_addr :: u64
  reg_scroll_pos :: c_int
  var_scroll_pos :: c_int
  stack_scroll_pos :: c_int
  code_scroll_pos :: c_int
  mem_scroll_pos :: c_int
  running :: int
  mouse_enabled :: int
  current_focus :: window_focus_t

subsection \<open>Scrolling\<close>

text \<open>
  \<^verbatim>\<open>handle_window_scroll\<close>.  The cursors are \<^verbatim>\<open>int\<close>; C leaves the overflow of
  \<^verbatim>\<open>pos += direction\<close> undefined, and the model wraps in two's complement as the target
  does.  The comparison with zero is the signed one.
\<close>

definition handle_window_scroll :: "debugger_ctx \<Rightarrow> c_int \<Rightarrow> debugger_ctx" where
  "handle_window_scroll ctx direction =
     (case current_focus ctx of
        FOCUS_REGISTERS \<Rightarrow>
          (let ctx = ctx\<lparr>reg_scroll_pos := reg_scroll_pos ctx + direction\<rparr>
           in if reg_scroll_pos ctx <s 0 then ctx\<lparr>reg_scroll_pos := 0\<rparr> else ctx)
      | FOCUS_VARIABLES \<Rightarrow>
          (let ctx = ctx\<lparr>var_scroll_pos := var_scroll_pos ctx + direction\<rparr>
           in if var_scroll_pos ctx <s 0 then ctx\<lparr>var_scroll_pos := 0\<rparr> else ctx)
      | FOCUS_STACK \<Rightarrow>
          (let ctx = ctx\<lparr>stack_scroll_pos := stack_scroll_pos ctx + direction\<rparr>
           in if stack_scroll_pos ctx <s 0 then ctx\<lparr>stack_scroll_pos := 0\<rparr> else ctx)
      | FOCUS_CODE \<Rightarrow>
          (let ctx = ctx\<lparr>code_scroll_pos := code_scroll_pos ctx + direction\<rparr>
           in if code_scroll_pos ctx <s 0 then ctx\<lparr>code_scroll_pos := 0\<rparr> else ctx)
      | FOCUS_MEMORY \<Rightarrow>
          (let ctx = ctx\<lparr>mem_scroll_pos := mem_scroll_pos ctx + direction\<rparr>
           in if mem_scroll_pos ctx <s 0 then ctx\<lparr>mem_scroll_pos := 0\<rparr> else ctx)
      | _ \<Rightarrow> ctx)"

text \<open>The cursor that belongs to a view; the command view has none.\<close>

fun scroll_pos :: "window_focus_t \<Rightarrow> debugger_ctx \<Rightarrow> c_int option" where
  "scroll_pos FOCUS_REGISTERS ctx = Some (reg_scroll_pos ctx)"
| "scroll_pos FOCUS_VARIABLES ctx = Some (var_scroll_pos ctx)"
| "scroll_pos FOCUS_STACK ctx = Some (stack_scroll_pos ctx)"
| "scroll_pos FOCUS_CODE ctx = Some (code_scroll_pos ctx)"
| "scroll_pos FOCUS_MEMORY ctx = Some (mem_scroll_pos ctx)"
| "scroll_pos _ ctx = None"

subsection \<open>Start-up\<close>

text \<open>
  \<^verbatim>\<open>strcpy\<close> into an array: the bytes of the source, terminator included, replace the
  first bytes of the destination.  Every call in the front end copies a literal of at most
  19 bytes into the 128 bytes of \<^verbatim>\<open>current_function\<close>.
\<close>

definition strcpy :: "char list \<Rightarrow> char list \<Rightarrow> char list" where
  "strcpy dst src = src @ drop (length src) dst"

text \<open>What \<^verbatim>\<open>memset(ctx, 0, sizeof(*ctx))\<close> leaves in the fields.\<close>

definition zero_ctx :: debugger_ctx where
  "zero_ctx =
     \<lparr>state = DEBUG_STOPPED, bpf_fd = 0, perf_fd = 0, bpf_loaded = 0,
      regs = (\<lambda>_. 0), breakpoints = [], current_function = replicate 128 NUL,
      current_addr = 0, reg_scroll_pos = 0, var_scroll_pos = 0, stack_scroll_pos = 0,
      code_scroll_pos = 0, mem_scroll_pos = 0, running = 0, mouse_enabled = 0,
      current_focus = FOCUS_REGISTERS\<rparr>"

text \<open>
  \<^verbatim>\<open>init_debugger\<close>; the argument says whether \<^verbatim>\<open>pthread_mutex_init\<close> succeeded.  The
  result is the return value and the context as the function leaves it.
\<close>

definition init_debugger :: "bool \<Rightarrow> int \<times> debugger_ctx" where
  "init_debugger mutex_init_ok =
     (let ctx = zero_ctx;
          ctx = ctx\<lparr>state := DEBUG_STOPPED\<rparr>;
          ctx = ctx\<lparr>running := 1\<rparr>;
          ctx = ctx\<lparr>current_addr := 0xffffffff80000000\<rparr>;
          ctx = ctx\<lparr>current_function :=
                  strcpy (current_function ctx) (c_literal ''taco_sys_init'')\<rparr>;
          ctx = ctx\<lparr>bpf_loaded := 0\<rparr>;
          ctx = ctx\<lparr>bpf_fd := - 1\<rparr>;
          ctx = ctx\<lparr>current_focus := FOCUS_CODE\<rparr>
      in if \<not> mutex_init_ok then (- 1, ctx)
         else
           (let ctx = ctx\<lparr>regs := (regs ctx)(PC := current_addr ctx)\<rparr>;
                ctx = ctx\<lparr>regs := (regs ctx)(SP := 0xffffffff80800000)\<rparr>;
                ctx = ctx\<lparr>regs := (regs ctx)(RA := 0xffffffff80000100)\<rparr>
            in (0, ctx)))"

subsection \<open>Loading the probe program\<close>

text \<open>
  \<^verbatim>\<open>load_bpf_program\<close> talks to the file system and the kernel; what they answer is an
  input of the model.  \<^verbatim>\<open>Prog_load r\<close> is the case where the object file was opened and
  mapped and the \<^verbatim>\<open>bpf\<close> system call returned \<open>r\<close>.
\<close>

datatype bpf_load_outcome = Open_failed | Fstat_failed | Mmap_failed | Prog_load int

definition load_bpf_program :: "bpf_load_outcome \<Rightarrow> debugger_ctx \<Rightarrow> int \<times> debugger_ctx" where
  "load_bpf_program outcome ctx =
     (let ctx = ctx\<lparr>bpf_loaded := 0\<rparr>;
          ctx = ctx\<lparr>bpf_fd := - 1\<rparr>
      in case outcome of
           Open_failed \<Rightarrow> (- 1, ctx)
         | Fstat_failed \<Rightarrow> (- 1, ctx)
         | Mmap_failed \<Rightarrow> (- 1, ctx)
         | Prog_load r \<Rightarrow>
             (let ctx = ctx\<lparr>bpf_fd := r\<rparr>
              in if bpf_fd ctx < 0 then (- 1, ctx)
                 else (0, ctx\<lparr>bpf_loaded := 1\<rparr>)))"

subsection \<open>Focus\<close>

text \<open>\<^verbatim>\<open>switch_window_focus\<close>; moving the terminal cursor leaves the context alone.\<close>

definition switch_window_focus :: "debugger_ctx \<Rightarrow> window_focus_t \<Rightarrow> debugger_ctx" where
  "switch_window_focus ctx new_focus =
     (if focus_num new_focus \<ge> focus_num FOCUS_COUNT then ctx
      else ctx\<lparr>current_focus := new_focus\<rparr>)"

subsection \<open>Key presses\<close>

text \<open>
  The key codes of \<^verbatim>\<open>ncurses.h\<close>: \<^verbatim>\<open>KEY_F0\<close> is octal 410, \<^verbatim>\<open>KEY_F(n)\<close> is
  \<^verbatim>\<open>KEY_F0 + n\<close>, \<^verbatim>\<open>KEY_MOUSE\<close> is octal 631 and \<^verbatim>\<open>KEY_RESIZE\<close> octal 632.  A character
  key is the code of the character.
\<close>

definition KEY_F :: "int \<Rightarrow> int" where
  "KEY_F n = 264 + n"

definition KEY_MOUSE :: int where
  "KEY_MOUSE = 409"

definition KEY_RESIZE :: int where
  "KEY_RESIZE = 410"

definition key :: "char \<Rightarrow> int" where
  "key c = of_char c"

text \<open>
  \<^verbatim>\<open>handle_input\<close>, as a function of the key \<^verbatim>\<open>getch\<close> returned and of the answer of
  the system to a reload.  The cases are tried in the order of the \<^verbatim>\<open>switch\<close>; their
  labels are distinct, so the order decides nothing.  The mouse case reads the event and
  does nothing with it; the resize case redraws.
\<close>

definition handle_input :: "int \<Rightarrow> bpf_load_outcome \<Rightarrow> debugger_ctx \<Rightarrow> debugger_ctx" where
  "handle_input ch outcome ctx =
     (if ch = KEY_F 5 then ctx\<lparr>state := DEBUG_RUNNING\<rparr>
      else if ch = KEY_F 10 then ctx\<lparr>state := DEBUG_STEPPING\<rparr>
      else if ch = KEY_F 11 then ctx\<lparr>state := DEBUG_STEPPING\<rparr>
      else if ch = key CHR ''q'' \<or> ch = key CHR ''Q'' then ctx\<lparr>running := 0\<rparr>
      else if ch = key CHR ''c'' \<or> ch = key CHR ''C'' then ctx\<lparr>state := DEBUG_RUNNING\<rparr>
      else if ch = key CHR ''s'' \<or> ch = key CHR ''S'' then ctx\<lparr>state := DEBUG_STEPPING\<rparr>
      else if ch = key CHR ''b'' \<or> ch = key CHR ''B'' then ctx\<lparr>state := DEBUG_BREAKPOINT\<rparr>
      else if ch = key CHR ''r'' \<or> ch = key CHR ''R'' then
        (let ctx = (if bpf_fd ctx \<ge> 0 then ctx\<lparr>bpf_fd := - 1\<rparr> else ctx)
         in snd (load_bpf_program outcome ctx))
      else if ch = KEY_MOUSE then ctx
      else if ch = key CHR 0x09 then
        (let next_focus =
               focus_of_num ((focus_num (current_focus ctx) + 1) mod focus_num FOCUS_COUNT)
         in switch_window_focus ctx next_focus)
      else if ch = KEY_RESIZE then ctx
      else ctx)"

subsection \<open>The event thread\<close>

text \<open>
  One turn of the loop of \<^verbatim>\<open>event_thread\<close>, between taking and releasing the mutex.  The
  second component is the function's \<^verbatim>\<open>static int counter\<close>.  The thread does not read the
  perf buffer: every turn stands for one event, and what it applies is simulated.  The
  remainder is C's, truncating.
\<close>

definition event_thread_body :: "debugger_ctx \<times> c_int \<Rightarrow> debugger_ctx \<times> c_int" where
  "event_thread_body cc =
     (let (ctx, counter) = cc;
          ctx = ctx\<lparr>regs := (regs ctx)(PC := regs ctx PC + 4)\<rparr>;
          ctx = ctx\<lparr>current_addr := regs ctx PC\<rparr>
      in if state ctx = DEBUG_RUNNING then
           (let counter = counter + 1
            in if sint counter smod 10 = 0 then
                 (ctx\<lparr>current_function :=
                    strcpy (current_function ctx) (c_literal ''taco_sys_mmz_alloc'')\<rparr>, counter)
               else if sint counter smod 7 = 0 then
                 (ctx\<lparr>current_function :=
                    strcpy (current_function ctx) (c_literal ''taco_sys_init'')\<rparr>, counter)
               else (ctx, counter))
         else (ctx, counter))"

text \<open>The loop itself, for a given number of turns.\<close>

fun event_thread_turns :: "nat \<Rightarrow> debugger_ctx \<times> c_int \<Rightarrow> debugger_ctx \<times> c_int" where
  "event_thread_turns 0 cc = cc"
| "event_thread_turns (Suc n) cc = event_thread_turns n (event_thread_body cc)"

text \<open>
  Whether the current address of the session is the address of a breakpoint of its list
  that is switched on.
\<close>

definition at_enabled_breakpoint :: "debugger_ctx \<Rightarrow> bool" where
  "at_enabled_breakpoint ctx =
     list_ex (\<lambda>b. enabled b \<noteq> 0 \<and> addr b = current_addr ctx) (breakpoints ctx)"

subsection \<open>The session as it runs\<close>

text \<open>
  What happens to the context after start-up: the main loop handles a key, the event
  thread takes a turn, each as a whole.  The scroll handler has no caller in the file; a
  step by it is included all the same.  The counter of the event thread starts at zero.
\<close>

datatype session_step = Key_press int bpf_load_outcome | Event_turn | Scroll c_int

fun apply_step :: "session_step \<Rightarrow> debugger_ctx \<times> c_int \<Rightarrow> debugger_ctx \<times> c_int" where
  "apply_step (Key_press ch outcome) (ctx, counter) = (handle_input ch outcome ctx, counter)"
| "apply_step Event_turn (ctx, counter) = event_thread_body (ctx, counter)"
| "apply_step (Scroll direction) (ctx, counter) = (handle_window_scroll ctx direction, counter)"

fun run_steps :: "session_step list \<Rightarrow> debugger_ctx \<times> c_int \<Rightarrow> debugger_ctx \<times> c_int" where
  "run_steps [] cc = cc"
| "run_steps (st # steps) cc = run_steps steps (apply_step st cc)"

definition session_start :: "debugger_ctx \<times> c_int" where
  "session_start = (snd (init_debugger True), 0)"

subsection \<open>The mutex\<close>

text \<open>
  What a function does with \<^verbatim>\<open>data_mutex\<close> and with the context, in program order:
  taking and releasing the mutex, writing and reading fields of the context, talking to
  the terminal (curses output, \<^verbatim>\<open>getch\<close>), calling the system, sleeping.
\<close>

datatype sync_action =
    Mutex_lock | Mutex_unlock | Ctx_write | Ctx_read | Terminal_io | System_call | Sleep

text \<open>
  \<^verbatim>\<open>update_all_windows\<close>: seven window updates, each reading the context and refreshing
  its window, then \<^verbatim>\<open>update_panels\<close> and \<^verbatim>\<open>doupdate\<close>, all between lock and unlock.
\<close>

definition update_all_windows_trace :: "sync_action list" where
  "update_all_windows_trace =
     [Mutex_lock] @ concat (replicate 7 [Ctx_read, Terminal_io])
       @ [Terminal_io, Terminal_io, Mutex_unlock]"

text \<open>\<^verbatim>\<open>load_bpf_program\<close>: two writes, then the calls up to the first one that fails.\<close>

definition load_bpf_program_trace :: "bpf_load_outcome \<Rightarrow> sync_action list" where
  "load_bpf_program_trace outcome =
     [Ctx_write, Ctx_write, System_call]
       @ (case outcome of
            Open_failed \<Rightarrow> []
          | Fstat_failed \<Rightarrow> [System_call, System_call]
          | Mmap_failed \<Rightarrow> [System_call, System_call, System_call]
          | Prog_load r \<Rightarrow>
              [System_call, System_call, System_call, System_call, Ctx_write, Ctx_read,
               System_call] @ (if r < 0 then [] else [Ctx_write]))"

text \<open>\<^verbatim>\<open>handle_input\<close>: \<^verbatim>\<open>getch\<close>, then the statements of the case taken.\<close>

definition handle_input_trace ::
    "int \<Rightarrow> bpf_load_outcome \<Rightarrow> debugger_ctx \<Rightarrow> sync_action list" where
  "handle_input_trace ch outcome ctx =
     Terminal_io #
     (if ch = KEY_F 5 then [Ctx_write]
      else if ch = KEY_F 10 then [Ctx_write]
      else if ch = KEY_F 11 then [Ctx_write]
      else if ch = key CHR ''q'' \<or> ch = key CHR ''Q'' then [Ctx_write]
      else if ch = key CHR ''c'' \<or> ch = key CHR ''C'' then [Ctx_write]
      else if ch = key CHR ''s'' \<or> ch = key CHR ''S'' then [Ctx_write]
      else if ch = key CHR ''b'' \<or> ch = key CHR ''B'' then [Ctx_write]
      else if ch = key CHR ''r'' \<or> ch = key CHR ''R'' then
        Ctx_read # (if bpf_fd ctx \<ge> 0 then [System_call, Ctx_write] else [])
          @ load_bpf_program_trace outcome
      else if ch = KEY_MOUSE then
        Ctx_read # (if mouse_enabled ctx \<noteq> 0 then [Terminal_io] else [])
      else if ch = key CHR 0x09 then [Ctx_read, Ctx_write, Ctx_read, Terminal_io]
      else if ch = KEY_RESIZE then
        [Terminal_io, Terminal_io, Terminal_io] @ update_all_windows_trace
      else [])"

text \<open>One turn of \<^verbatim>\<open>event_thread\<close>: the sleep, then the update between lock and unlock.\<close>

definition event_thread_trace :: "debugger_ctx \<times> c_int \<Rightarrow> sync_action list" where
  "event_thread_trace cc =
     [Sleep, Mutex_lock, Ctx_write, Ctx_write, Ctx_read]
       @ (if state (fst cc) = DEBUG_RUNNING
             \<and> (sint (snd cc + 1) smod 10 = 0 \<or> sint (snd cc + 1) smod 7 = 0)
          then [Ctx_write] else [])
       @ [Mutex_unlock]"

text \<open>
  The discipline: \<open>writes_locked held t\<close> says that every write of the context in \<open>t\<close>
  happens while the mutex is held, \<open>held\<close> telling whether it is at the start;
  \<open>io_unlocked held t\<close> says that no terminal traffic, system call or sleep happens while
  it is held.
\<close>

fun writes_locked :: "bool \<Rightarrow> sync_action list \<Rightarrow> bool" where
  "writes_locked held [] = True"
| "writes_locked held (Mutex_lock # t) = writes_locked True t"
| "writes_locked held (Mutex_unlock # t) = writes_locked False t"
| "writes_locked held (Ctx_write # t) = (held \<and> writes_locked held t)"
| "writes_locked held (_ # t) = writes_locked held t"

fun io_unlocked :: "bool \<Rightarrow> sync_action list \<Rightarrow> bool" where
  "io_unlocked held [] = True"
| "io_unlocked held (Mutex_lock # t) = io_unlocked True t"
| "io_unlocked held (Mutex_unlock # t) = io_unlocked False t"
| "io_unlocked held (Ctx_write # t) = io_unlocked held t"
| "io_unlocked held (Ctx_read # t) = io_unlocked held t"
| "io_unlocked held (_ # t) = (\<not> held \<and> io_unlocked held t)"

section \<open>The probes: \<^verbatim>\<open>kernel_debugger.bpf.c\<close>\<close>

subsection \<open>Data\<close>

datatype debug_event_type = EVENT_FUNCTION_ENTRY | EVENT_FUNCTION_EXIT | EVENT_BREAKPOINT

text \<open>The enumerators are passed where a \<^verbatim>\<open>u8\<close> is expected.\<close>

fun event_type_code :: "debug_event_type \<Rightarrow> u8" where
  "event_type_code EVENT_FUNCTION_ENTRY = 0"
| "event_type_code EVENT_FUNCTION_EXIT = 1"
| "event_type_code EVENT_BREAKPOINT = 2"

definition MAX_FUNCTION_NAME :: c_int where
  "MAX_FUNCTION_NAME = 64"

record debug_event =
  timestamp :: u64
  pid :: u32
  tid :: u32
  cpu :: u32
  event_type :: u8
  function_name :: "char list"
  instruction_pointer :: u64

record debugger_control =
  debug_mode :: u8
  target_pid :: u32
  global_enable :: u8

subsection \<open>The trap context and the helpers\<close>

text \<open>
  The values the accessor macros of \<^verbatim>\<open>bpf_tracing.h\<close> read from the trap context; which
  machine register each one names is the library's business.
\<close>

record pt_regs =
  PT_REGS_IP :: u64
  PT_REGS_RC :: u64
  PT_REGS_SP :: u64
  PT_REGS_FP :: u64
  PT_REGS_PARM1 :: u64
  PT_REGS_PARM2 :: u64
  PT_REGS_PARM3 :: u64
  PT_REGS_PARM4 :: u64
  PT_REGS_PARM5 :: u64
  PT_REGS_PARM6 :: u64

text \<open>
  What the kernel answers during one firing of a probe.  \<open>control_map_elem\<close> and
  \<open>debug_control_elem\<close> are the results of \<^verbatim>\<open>bpf_map_lookup_elem\<close> at key 0 on the two
  control maps, \<open>None\<close> for the null pointer; \<open>bpf_ringbuf_reserve_ok\<close> says whether the
  ring buffer has room for the record; \<open>bpf_probe_read_user\<close> gives the eight bytes at a
  user address, \<open>None\<close> where the read faults; \<open>ctx_regs\<close> is the trap context.
\<close>

record bpf_env =
  control_map_elem :: "debugger_control option"
  debug_control_elem :: "u32 option"
  bpf_get_current_pid_tgid :: u64
  bpf_ktime_get_ns :: u64
  bpf_get_smp_processor_id :: u32
  bpf_get_current_comm :: "char list"
  bpf_ringbuf_reserve_ok :: bool
  bpf_probe_read_user :: "u64 \<Rightarrow> u64 option"
  ctx_regs :: pt_regs

subsection \<open>Copying the function name\<close>

text \<open>
  Arrays are lists of bytes, and an access outside the array is an error of the model,
  where C leaves it undefined.  A source pointer is \<open>None\<close> when null.
\<close>

datatype mem_error = Read_out_of_bounds | Write_out_of_bounds

definition read_at :: "char list \<Rightarrow> nat \<Rightarrow> mem_error + char" where
  "read_at a i = (if i < length a then Inr (a ! i) else Inl Read_out_of_bounds)"

definition write_at :: "char list \<Rightarrow> nat \<Rightarrow> char \<Rightarrow> mem_error + char list" where
  "write_at a i c = (if i < length a then Inr (a[i := c]) else Inl Write_out_of_bounds)"

text \<open>
  The loop of \<^verbatim>\<open>safe_strcpy\<close>, from index \<open>i\<close> on; the result is the destination and the
  index at which the loop stopped.  The index starts at zero and only grows, so it is a
  natural number.  \<^verbatim>\<open>max_len\<close> is the 32-bit \<^verbatim>\<open>int\<close> of the source: \<open>max_len - 1\<close> is computed
  in 32 bits, wrapping at the least \<^verbatim>\<open>int\<close>, and compared as a signed number.  The three
  conditions are
  tested in the order of the source: the source is not read once \<open>i\<close> has reached
  \<open>max_len - 1\<close>, nor when it is null.
\<close>

function safe_strcpy_loop ::
    "char list \<Rightarrow> char list option \<Rightarrow> c_int \<Rightarrow> nat \<Rightarrow> mem_error + (char list \<times> nat)" where
  "safe_strcpy_loop dst src max_len i =
     (if int i < sint (max_len - 1) then
        (case src of
           None \<Rightarrow> Inr (dst, i)
         | Some s \<Rightarrow>
             (case read_at s i of
                Inl e \<Rightarrow> Inl e
              | Inr c \<Rightarrow>
                  if c \<noteq> NUL then
                    (case write_at dst i c of
                       Inl e \<Rightarrow> Inl e
                     | Inr dst' \<Rightarrow> safe_strcpy_loop dst' src max_len (i + 1))
                  else Inr (dst, i)))
      else Inr (dst, i))"
  by pat_completeness auto
termination
  by (relation "measure (\<lambda>(dst, src, max_len, i). nat (sint (max_len - 1) - int i))") auto

declare safe_strcpy_loop.simps [simp del]

definition safe_strcpy :: "char list \<Rightarrow> char list option \<Rightarrow> c_int \<Rightarrow> mem_error + char list" where
  "safe_strcpy dst src max_len =
     (case safe_strcpy_loop dst src max_len 0 of
        Inl e \<Rightarrow> Inl e
      | Inr (dst', i) \<Rightarrow> write_at dst' i NUL)"

text \<open>
  A source is a C string when it is null or holds a terminator; its text is what comes
  before the first terminator; \<open>up_to_terminator\<close> cuts the array right after it.
\<close>

definition terminated :: "char list option \<Rightarrow> bool" where
  "terminated src = (case src of None \<Rightarrow> True | Some s \<Rightarrow> NUL \<in> set s)"

definition c_text :: "char list option \<Rightarrow> char list" where
  "c_text src = (case src of None \<Rightarrow> [] | Some s \<Rightarrow> takeWhile (\<lambda>c. c \<noteq> NUL) s)"

definition up_to_terminator :: "char list option \<Rightarrow> char list option" where
  "up_to_terminator src = map_option (\<lambda>s. takeWhile (\<lambda>c. c \<noteq> NUL) s @ [NUL]) src"

subsection \<open>The record of \<^verbatim>\<open>enhanced_bpf_template.c\<close>\<close>

text \<open>
  \<^verbatim>\<open>struct enhanced_debug_event\<close>, as the memory of a ring buffer slot: a field holds
  \<open>None\<close> until something has been written to it.  The eighteen register fields are of one
  type and are indexed by their names.
\<close>

datatype event_reg =
    Reg_pc | Reg_ra | Reg_sp | Reg_gp | Reg_tp
  | Reg_t0 | Reg_t1 | Reg_t2
  | Reg_s0 | Reg_s1
  | Reg_a0 | Reg_a1 | Reg_a2 | Reg_a3 | Reg_a4 | Reg_a5 | Reg_a6 | Reg_a7

definition event_regs :: "event_reg list" where
  "event_regs =
     [Reg_pc, Reg_ra, Reg_sp, Reg_gp, Reg_tp, Reg_t0, Reg_t1, Reg_t2, Reg_s0, Reg_s1,
      Reg_a0, Reg_a1, Reg_a2, Reg_a3, Reg_a4, Reg_a5, Reg_a6, Reg_a7]"

record enhanced_debug_event =
  ev_pid :: "u32 option"
  ev_tgid :: "u32 option"
  ev_timestamp :: "u64 option"
  ev_breakpoint_id :: "u32 option"
  ev_comm :: "char option list"
  ev_function :: "char option list"
  ev_reg :: "event_reg \<Rightarrow> u64 option"
  ev_stack_data :: "u64 option list"
  ev_local_vars :: "u64 option list"

subsection \<open>Emitting an event\<close>

text \<open>
  What the probes leave behind: the records handed to \<^verbatim>\<open>bpf_perf_event_output\<close> on the
  map \<^verbatim>\<open>events\<close>, the number of slots reserved in the ring buffer \<^verbatim>\<open>rb\<close>, the records
  submitted to it, and the lines printed to the trace pipe.
\<close>

datatype trace_line =
    Trace_enhanced_bp u32 u64 u64
  | Trace_args u64 u64 u64 u64
  | Trace_return u32 u64

record bpf_world =
  events :: "debug_event list"
  rb_reserved :: nat
  rb :: "enhanced_debug_event list"
  trace_pipe :: "trace_line list"

definition get_debugger_control :: "bpf_env \<Rightarrow> debugger_control option" where
  "get_debugger_control env = control_map_elem env"

definition should_trace_process :: "bpf_env \<Rightarrow> debugger_control option \<Rightarrow> int" where
  "should_trace_process env ctrl =
     (case ctrl of
        None \<Rightarrow> 0
      | Some c \<Rightarrow>
          if global_enable c = 0 then 0
          else
            (let current_pid = (ucast (drop_bit 32 (bpf_get_current_pid_tgid env)) :: u32)
             in if target_pid c = 0 \<or> target_pid c = current_pid then 1 else 0))"

text \<open>\<^verbatim>\<open>struct debug_event event = {}\<close>.\<close>

definition empty_event :: debug_event where
  "empty_event =
     \<lparr>timestamp = 0, pid = 0, tid = 0, cpu = 0, event_type = 0,
      function_name = replicate (unat MAX_FUNCTION_NAME) NUL, instruction_pointer = 0\<rparr>"

text \<open>
  \<^verbatim>\<open>send_debug_event\<close>.  The result of \<^verbatim>\<open>bpf_perf_event_output\<close> is not looked at by the
  source; the model records the call.
\<close>

definition send_debug_event ::
    "bpf_env \<Rightarrow> u8 \<Rightarrow> char list option \<Rightarrow> bpf_world \<Rightarrow> mem_error + bpf_world" where
  "send_debug_event env etype func_name w =
     (let ctrl = get_debugger_control env
      in if should_trace_process env ctrl = 0 then Inr w
         else
           (let event = empty_event;
                event = event\<lparr>timestamp := bpf_ktime_get_ns env\<rparr>;
                event = event\<lparr>pid := ucast (drop_bit 32 (bpf_get_current_pid_tgid env))\<rparr>;
                event = event\<lparr>tid := ucast (bpf_get_current_pid_tgid env AND 0xFFFFFFFF)\<rparr>;
                event = event\<lparr>cpu := bpf_get_smp_processor_id env\<rparr>;
                event = event\<lparr>event_type := etype\<rparr>;
                event = event\<lparr>instruction_pointer := 0\<rparr>
            in case func_name of
                 None \<Rightarrow> Inr (w\<lparr>events := events w @ [event]\<rparr>)
               | Some _ \<Rightarrow>
                   (case safe_strcpy (function_name event) func_name MAX_FUNCTION_NAME of
                      Inl e \<Rightarrow> Inl e
                    | Inr name \<Rightarrow>
                        Inr (w\<lparr>events := events w @ [event\<lparr>function_name := name\<rparr>]\<rparr>))))"

text \<open>The six programs of the file; each returns 0 after the call.\<close>

definition generic_kprobe :: "bpf_env \<Rightarrow> bpf_world \<Rightarrow> mem_error + bpf_world" where
  "generic_kprobe env w =
     send_debug_event env (event_type_code EVENT_FUNCTION_ENTRY)
       (Some (c_literal ''traced_function'')) w"

definition generic_kretprobe :: "bpf_env \<Rightarrow> bpf_world \<Rightarrow> mem_error + bpf_world" where
  "generic_kretprobe env w =
     send_debug_event env (event_type_code EVENT_FUNCTION_EXIT)
       (Some (c_literal ''traced_function'')) w"

definition trace_taco_sys_mmz_alloc_entry ::
    "bpf_env \<Rightarrow> bpf_world \<Rightarrow> mem_error + bpf_world" where
  "trace_taco_sys_mmz_alloc_entry env w =
     send_debug_event env (event_type_code EVENT_FUNCTION_ENTRY)
       (Some (c_literal ''taco_sys_mmz_alloc'')) w"

definition trace_taco_sys_mmz_alloc_exit ::
    "bpf_env \<Rightarrow> bpf_world \<Rightarrow> mem_error + bpf_world" where
  "trace_taco_sys_mmz_alloc_exit env w =
     send_debug_event env (event_type_code EVENT_FUNCTION_EXIT)
       (Some (c_literal ''taco_sys_mmz_alloc'')) w"

definition trace_kmalloc_entry :: "bpf_env \<Rightarrow> bpf_world \<Rightarrow> mem_error + bpf_world" where
  "trace_kmalloc_entry env w =
     send_debug_event env (event_type_code EVENT_FUNCTION_ENTRY)
       (Some (c_literal ''__kmalloc'')) w"

definition trace_kmalloc_exit :: "bpf_env \<Rightarrow> bpf_world \<Rightarrow> mem_error + bpf_world" where
  "trace_kmalloc_exit env w =
     send_debug_event env (event_type_code EVENT_FUNCTION_EXIT)
       (Some (c_literal ''__kmalloc'')) w"

section \<open>The probe template: \<^verbatim>\<open>enhanced_bpf_template.c\<close>\<close>

text \<open>The slot as \<^verbatim>\<open>bpf_ringbuf_reserve\<close> hands it out: nothing written yet.\<close>

definition reserved_slot :: enhanced_debug_event where
  "reserved_slot =
     \<lparr>ev_pid = None, ev_tgid = None, ev_timestamp = None, ev_breakpoint_id = None,
      ev_comm = replicate 16 None, ev_function = replicate 64 None,
      ev_reg = (\<lambda>_. None),
      ev_stack_data = replicate 8 None, ev_local_vars = replicate 16 None\<rparr>"

text \<open>\<^verbatim>\<open>__builtin_memset(event, 0, sizeof(*event))\<close>: every byte of the slot is written.\<close>

definition memset_zero :: "enhanced_debug_event \<Rightarrow> enhanced_debug_event" where
  "memset_zero event =
     \<lparr>ev_pid = Some 0, ev_tgid = Some 0, ev_timestamp = Some 0, ev_breakpoint_id = Some 0,
      ev_comm = map (\<lambda>_. Some NUL) (ev_comm event),
      ev_function = map (\<lambda>_. Some NUL) (ev_function event),
      ev_reg = (\<lambda>_. Some 0),
      ev_stack_data = map (\<lambda>_. Some 0) (ev_stack_data event),
      ev_local_vars = map (\<lambda>_. Some 0) (ev_local_vars event)\<rparr>"

text \<open>
  The loop of \<^verbatim>\<open>read_user_stack_data\<close> from index \<open>i\<close> on: a slot whose read faults is
  set to zero.  The address is computed in 64 bits.
\<close>

function read_user_stack_loop ::
    "bpf_env \<Rightarrow> u64 \<Rightarrow> u64 option list \<Rightarrow> int \<Rightarrow> nat \<Rightarrow> u64 option list" where
  "read_user_stack_loop env sp stack_data count i =
     (if int i < count \<and> i < 8 then
        (case bpf_probe_read_user env (sp + of_nat (i * 8)) of
           Some v \<Rightarrow> read_user_stack_loop env sp (stack_data[i := Some v]) count (i + 1)
         | None \<Rightarrow> read_user_stack_loop env sp (stack_data[i := Some 0]) count (i + 1))
      else stack_data)"
  by pat_completeness auto
termination
  by (relation "measure (\<lambda>(env, sp, stack_data, count, i). 8 - i)") auto

declare read_user_stack_loop.simps [simp del]

definition read_user_stack_data :: "bpf_env \<Rightarrow> u64 option list \<Rightarrow> int \<Rightarrow> u64 option list" where
  "read_user_stack_data env stack_data count =
     (let sp = PT_REGS_SP (ctx_regs env)
      in read_user_stack_loop env sp stack_data count 0)"

text \<open>The loop of \<^verbatim>\<open>read_local_variables\<close>, reading downwards from the frame pointer.\<close>

function read_local_loop ::
    "bpf_env \<Rightarrow> u64 \<Rightarrow> u64 option list \<Rightarrow> int \<Rightarrow> nat \<Rightarrow> u64 option list" where
  "read_local_loop env fp local_vars count i =
     (if int i < count \<and> i < 16 then
        (case bpf_probe_read_user env (fp - of_nat ((i + 1) * 8)) of
           Some v \<Rightarrow> read_local_loop env fp (local_vars[i := Some v]) count (i + 1)
         | None \<Rightarrow> read_local_loop env fp (local_vars[i := Some 0]) count (i + 1))
      else local_vars)"
  by pat_completeness auto
termination
  by (relation "measure (\<lambda>(env, fp, local_vars, count, i). 16 - i)") auto

declare read_local_loop.simps [simp del]

definition read_local_variables :: "bpf_env \<Rightarrow> u64 option list \<Rightarrow> int \<Rightarrow> u64 option list" where
  "read_local_variables env local_vars count =
     (let fp = PT_REGS_FP (ctx_regs env)
      in read_local_loop env fp local_vars count 0)"

text \<open>
  \<^verbatim>\<open>enhanced_breakpoint_probe\<close>; it returns 0 on every path.  \<^verbatim>\<open>bpf_get_current_comm\<close>
  fills the sixteen bytes of \<^verbatim>\<open>comm\<close>; \<^verbatim>\<open>bpf_probe_read_str\<close> writes the name and its
  terminator and leaves the rest of \<^verbatim>\<open>function\<close> as it is.
\<close>

definition enhanced_breakpoint_probe :: "bpf_env \<Rightarrow> bpf_world \<Rightarrow> bpf_world" where
  "enhanced_breakpoint_probe env w =
     (case debug_control_elem env of
        None \<Rightarrow> w
      | Some enabled_flag \<Rightarrow>
          if enabled_flag = 0 then w
          else if \<not> bpf_ringbuf_reserve_ok env then w
          else
            (let w = w\<lparr>rb_reserved := rb_reserved w + 1\<rparr>;
                 event = reserved_slot;
                 event = memset_zero event;
                 event = event\<lparr>ev_pid :=
                           Some (ucast (bpf_get_current_pid_tgid env AND 0xffffffff))\<rparr>;
                 event = event\<lparr>ev_tgid :=
                           Some (ucast (drop_bit 32 (bpf_get_current_pid_tgid env)))\<rparr>;
                 event = event\<lparr>ev_timestamp := Some (bpf_ktime_get_ns env)\<rparr>;
                 event = event\<lparr>ev_breakpoint_id := Some 1\<rparr>;
                 event = event\<lparr>ev_comm :=
                           map Some (take 16 (bpf_get_current_comm env @ replicate 16 NUL))\<rparr>;
                 event = event\<lparr>ev_function :=
                           map Some (c_literal ''target_function'')
                             @ drop (length (c_literal ''target_function''))
                                 (ev_function event)\<rparr>;
                 event = event\<lparr>ev_reg := (ev_reg event)
                           (Reg_pc := Some (PT_REGS_IP (ctx_regs env)))\<rparr>;
                 event = event\<lparr>ev_reg := (ev_reg event)
                           (Reg_ra := Some (PT_REGS_RC (ctx_regs env)))\<rparr>;
                 event = event\<lparr>ev_reg := (ev_reg event)
                           (Reg_sp := Some (PT_REGS_SP (ctx_regs env)))\<rparr>;
                 event = event\<lparr>ev_reg := (ev_reg event)
                           (Reg_gp := Some (PT_REGS_FP (ctx_regs env)))\<rparr>;
                 event = event\<lparr>ev_reg := (ev_reg event)(Reg_tp := Some 0)\<rparr>;
                 event = event\<lparr>ev_reg := (ev_reg event)
                           (Reg_a0 := Some (PT_REGS_PARM1 (ctx_regs env)))\<rparr>;
                 event = event\<lparr>ev_reg := (ev_reg event)
                           (Reg_a1 := Some (PT_REGS_PARM2 (ctx_regs env)))\<rparr>;
                 event = event\<lparr>ev_reg := (ev_reg event)
                           (Reg_a2 := Some (PT_REGS_PARM3 (ctx_regs env)))\<rparr>;
                 event = event\<lparr>ev_reg := (ev_reg event)
                           (Reg_a3 := Some (PT_REGS_PARM4 (ctx_regs env)))\<rparr>;
                 event = event\<lparr>ev_reg := (ev_reg event)
                           (Reg_a4 := Some (PT_REGS_PARM5 (ctx_regs env)))\<rparr>;
                 event = event\<lparr>ev_reg := (ev_reg event)
                           (Reg_a5 := Some (PT_REGS_PARM6 (ctx_regs env)))\<rparr>;
                 event = event\<lparr>ev_reg := (ev_reg event)(Reg_a6 := Some 0)\<rparr>;
                 event = event\<lparr>ev_reg := (ev_reg event)(Reg_a7 := Some 0)\<rparr>;
                 event = event\<lparr>ev_reg := (ev_reg event)
                           (Reg_t2 := Some 0, Reg_t1 := Some 0, Reg_t0 := Some 0)\<rparr>;
                 event = event\<lparr>ev_reg := (ev_reg event)
                           (Reg_s1 := Some 0, Reg_s0 := Some 0)\<rparr>;
                 event = event\<lparr>ev_stack_data :=
                           read_user_stack_data env (ev_stack_data event) 8\<rparr>;
                 event = event\<lparr>ev_local_vars :=
                           read_local_variables env (ev_local_vars event) 16\<rparr>;
                 w = w\<lparr>rb := rb w @ [event]\<rparr>;
                 w = w\<lparr>trace_pipe := trace_pipe w
                        @ [Trace_enhanced_bp (the (ev_pid event)) (the (ev_reg event Reg_pc))
                             (the (ev_reg event Reg_sp))]\<rparr>;
                 w = w\<lparr>trace_pipe := trace_pipe w
                        @ [Trace_args (the (ev_reg event Reg_a0)) (the (ev_reg event Reg_a1))
                             (the (ev_reg event Reg_a2)) (the (ev_reg event Reg_a3))]\<rparr>
             in w))"

text \<open>\<^verbatim>\<open>enhanced_trace_function_return\<close>: it looks at no control map and only prints.\<close>

definition enhanced_trace_function_return :: "bpf_env \<Rightarrow> bpf_world \<Rightarrow> bpf_world" where
  "enhanced_trace_function_return env w =
     (let pid_tgid = bpf_get_current_pid_tgid env;
          pid = (ucast pid_tgid :: u32);
          return_value = PT_REGS_RC (ctx_regs env)
      in w\<lparr>trace_pipe := trace_pipe w @ [Trace_return pid return_value]\<rparr>)"

text \<open>Every field of a record has been written.\<close>

definition initialised :: "enhanced_debug_event \<Rightarrow> bool" where
  "initialised e =
     (ev_pid e \<noteq> None \<and> ev_tgid e \<noteq> None \<and> ev_timestamp e \<noteq> None
      \<and> ev_breakpoint_id e \<noteq> None
      \<and> length (ev_comm e) = 16 \<and> list_all (\<lambda>c. c \<noteq> None) (ev_comm e)
      \<and> length (ev_function e) = 64 \<and> list_all (\<lambda>c. c \<noteq> None) (ev_function e)
      \<and> list_all (\<lambda>r. ev_reg e r \<noteq> None) event_regs
      \<and> length (ev_stack_data e) = 8 \<and> list_all (\<lambda>x. x \<noteq> None) (ev_stack_data e)
      \<and> length (ev_local_vars e) = 16 \<and> list_all (\<lambda>x. x \<noteq> None) (ev_local_vars e))"

section \<open>The breakpoint manager\<close>

text \<open>
  The sources under study declare the breakpoint node and the control record, and the key
  \<^verbatim>\<open>b\<close> of the front end only sets the debug state; the operations that change the set of
  breakpoints are not among them.  They are taken from the specification, over the two
  records of the sources.
\<close>

text \<open>
  Modelled from the spec: the errors of the breakpoint commands, \<open>DuplicateBreakpoint\<close> and
  \<open>BreakpointNotFound\<close>, which are reported to the caller with no state change.
\<close>

datatype bm_error = DuplicateBreakpoint | BreakpointNotFound

text \<open>
  Modelled from the spec: the state of the breakpoint manager, missing from the sources.
  It is the set of breakpoints, kept in address order with one entry per address, and the
  single instance of the control state the manager writes.
\<close>

record bm_state =
  bps :: "breakpoint list"
  control :: debugger_control

text \<open>
  Modelled from the spec: the three mutating operations of the breakpoint manager,
  \<open>add(address, symbol)\<close>, \<open>remove(address)\<close> and \<open>toggle(address, enabled)\<close>.
\<close>

datatype bm_op = Add u64 "char list" | Remove u64 | Toggle u64 bool

text \<open>
  Modelled from the spec: the manager at start-up, missing from the sources.  No
  breakpoint exists before a user command creates one, and the master switch is off.
\<close>

definition bm_init :: bm_state where
  "bm_init = \<lparr>bps = [], control = \<lparr>debug_mode = 0, target_pid = 0, global_enable = 0\<rparr>\<rparr>"

text \<open>Modelled from the spec: whether an address already exists in the set.\<close>

definition has_breakpoint :: "u64 \<Rightarrow> bm_state \<Rightarrow> bool" where
  "has_breakpoint a s = list_ex (\<lambda>b. addr b = a) (bps s)"

text \<open>Modelled from the spec: whether at least one breakpoint is enabled.\<close>

definition any_enabled :: "bm_state \<Rightarrow> bool" where
  "any_enabled s = list_ex (\<lambda>b. enabled b \<noteq> 0) (bps s)"

text \<open>
  Modelled from the spec: the propagation to the control state that every mutating
  operation performs in the same step, recomputing whether an enabled breakpoint
  requires \<open>global_enable\<close>.
\<close>

definition reconcile :: "bm_state \<Rightarrow> bm_state" where
  "reconcile s = s\<lparr>control := (control s)\<lparr>global_enable := (if any_enabled s then 1 else 0)\<rparr>\<rparr>"

text \<open>
  Modelled from the spec: \<open>add(address, symbol)\<close>, which fails with
  \<open>DuplicateBreakpoint\<close> if the address already exists.  The spec does not say whether a
  new breakpoint starts enabled; the first argument decides it.
\<close>

definition bm_add :: "bool \<Rightarrow> u64 \<Rightarrow> char list \<Rightarrow> bm_state \<Rightarrow> bm_error + bm_state" where
  "bm_add starts_enabled a symb s =
     (if has_breakpoint a s then Inl DuplicateBreakpoint
      else Inr (reconcile (s\<lparr>bps :=
                  insort_key addr
                    \<lparr>addr = a, enabled = (if starts_enabled then 1 else 0), symbol = symb\<rparr>
                    (bps s)\<rparr>)))"

text \<open>Modelled from the spec: \<open>remove(address)\<close>, which fails with \<open>NotFound\<close> if absent.\<close>

definition bm_remove :: "u64 \<Rightarrow> bm_state \<Rightarrow> bm_error + bm_state" where
  "bm_remove a s =
     (if \<not> has_breakpoint a s then Inl BreakpointNotFound
      else Inr (reconcile (s\<lparr>bps := filter (\<lambda>b. addr b \<noteq> a) (bps s)\<rparr>)))"

text \<open>
  Modelled from the spec: \<open>toggle(address, enabled)\<close>, which sets the flag of the
  breakpoint at the address and reports \<open>BreakpointNotFound\<close> when there is none.
\<close>

definition bm_toggle :: "u64 \<Rightarrow> bool \<Rightarrow> bm_state \<Rightarrow> bm_error + bm_state" where
  "bm_toggle a en s =
     (if \<not> has_breakpoint a s then Inl BreakpointNotFound
      else Inr (reconcile (s\<lparr>bps :=
                  map (\<lambda>b. if addr b = a then b\<lparr>enabled := (if en then 1 else 0)\<rparr> else b)
                    (bps s)\<rparr>)))"

text \<open>Modelled from the spec: \<open>list()\<close>, the breakpoints in address order.\<close>

definition bm_list :: "bm_state \<Rightarrow> breakpoint list" where
  "bm_list s = bps s"

text \<open>Modelled from the spec: one command of the manager, by its operation.\<close>

fun bm_apply :: "bool \<Rightarrow> bm_op \<Rightarrow> bm_state \<Rightarrow> bm_error + bm_state" where
  "bm_apply starts_enabled (Add a symb) s = bm_add starts_enabled a symb s"
| "bm_apply starts_enabled (Remove a) s = bm_remove a s"
| "bm_apply starts_enabled (Toggle a en) s = bm_toggle a en s"

text \<open>
  Modelled from the spec: the state after a command; a command that fails is reported and
  changes no state.
\<close>

definition bm_step :: "bool \<Rightarrow> bm_op \<Rightarrow> bm_state \<Rightarrow> bm_state" where
  "bm_step starts_enabled op s =
     (case bm_apply starts_enabled op s of Inl e \<Rightarrow> s | Inr s' \<Rightarrow> s')"

text \<open>Modelled from the spec: the states after each command of a sequence, in order.\<close>

fun bm_trace :: "bool \<Rightarrow> bm_op list \<Rightarrow> bm_state \<Rightarrow> bm_state list" where
  "bm_trace starts_enabled [] s = []"
| "bm_trace starts_enabled (op # ops) s =
     (let s' = bm_step starts_enabled op s in s' # bm_trace starts_enabled ops s')"

text \<open>
  Modelled from the spec: the reconciliation invariant, \<open>global_enable\<close> is true iff at
  least one breakpoint is enabled.
\<close>

definition reconciled :: "bm_state \<Rightarrow> bool" where
  "reconciled s = ((global_enable (control s) \<noteq> 0) = any_enabled s)"

section \<open>Sample inputs\<close>

text \<open>The session after scrolling the code view, which has the focus at start-up, down by three.\<close>

definition scrolled_session :: debugger_ctx where
  "scrolled_session = handle_window_scroll (snd (init_debugger True)) 3"

text \<open>
  A session of breakpoint commands: a second \<open>add\<close> at an address in use, a toggle, an
  \<open>add\<close> below the first address, and removals, the last of an address already removed.
\<close>

definition sample_ops :: "bm_op list" where
  "sample_ops =
     [Add 0x1000 ''foo'', Add 0x1000 ''bar'', Toggle 0x1000 False, Add 0x800 ''baz'',
      Remove 0x800, Remove 0x1000, Remove 0x1000]"

text \<open>A firing for the examples: thread 101 of process 100, which the control map selects.\<close>

definition sample_env :: bpf_env where
  "sample_env =
     \<lparr>control_map_elem = Some \<lparr>debug_mode = 0, target_pid = 100, global_enable = 1\<rparr>,
      debug_control_elem = Some 1,
      bpf_get_current_pid_tgid = 0x0000006400000065,
      bpf_ktime_get_ns = 1000,
      bpf_get_smp_processor_id = 2,
      bpf_get_current_comm = c_literal ''insmod'',
      bpf_ringbuf_reserve_ok = True,
      bpf_probe_read_user = (\<lambda>a. if a = 0x3ffffff000 then Some 42 else None),
      ctx_regs = \<lparr>PT_REGS_IP = 0xffffffff80001000, PT_REGS_RC = 7,
                  PT_REGS_SP = 0x3ffffff000, PT_REGS_FP = 0x3ffffff040,
                  PT_REGS_PARM1 = 1, PT_REGS_PARM2 = 2, PT_REGS_PARM3 = 3,
                  PT_REGS_PARM4 = 4, PT_REGS_PARM5 = 5, PT_REGS_PARM6 = 6\<rparr>\<rparr>"

text \<open>Nothing emitted yet.\<close>

definition empty_world :: bpf_world where
  "empty_world = \<lparr>events = [], rb_reserved = 0, rb = [], trace_pipe = []\<rparr>"


text \<open>The same firing with the ring buffer full.\<close>

definition full_env :: bpf_env where
  "full_env = sample_env\<lparr>bpf_ringbuf_reserve_ok := False\<rparr>"

text \<open>The same firing with the control map selecting another process.\<close>

definition unselected_env :: bpf_env where
  "unselected_env =
     sample_env\<lparr>control_map_elem := Some \<lparr>debug_mode = 0, target_pid = 7, global_enable = 1\<rparr>\<rparr>"

text \<open>The same firing with both lookups returning null.\<close>

definition no_control_env :: bpf_env where
  "no_control_env = sample_env\<lparr>control_map_elem := None, debug_control_elem := None\<rparr>"


section \<open>Properties of the front end\<close>

subsection \<open>Scroll cursors\<close>

lemma sless_zero_iff: "(x :: c_int) <s 0 \<longleftrightarrow> sint x < 0"
  by (simp add: word_sless_alt)

lemma scroll_focused_nonneg:
  "scroll_pos (current_focus ctx) (handle_window_scroll ctx d) = Some p \<Longrightarrow> 0 \<le> sint p"
  by (cases "current_focus ctx")
     (auto simp: handle_window_scroll_def Let_def sless_zero_iff split: if_splits)

lemma scroll_others_unchanged:
  "v \<noteq> current_focus ctx \<Longrightarrow> scroll_pos v (handle_window_scroll ctx d) = scroll_pos v ctx"
  by (cases "current_focus ctx"; cases v)
     (simp_all add: handle_window_scroll_def Let_def)

lemma scroll_focused_result:
  "scroll_pos (current_focus ctx) (handle_window_scroll ctx d)
     = map_option (\<lambda>q. if q + d <s 0 then 0 else q + d) (scroll_pos (current_focus ctx) ctx)"
  by (cases "current_focus ctx") (simp_all add: handle_window_scroll_def Let_def)

text \<open>
  C9.  Whatever the focused view, the direction and the cursors before the call: after
  \<^verbatim>\<open>handle_window_scroll\<close> the cursor \<open>q\<close> of the focused view is \<open>q + d\<close>, or zero when
  \<open>q + d\<close> is below zero; so it is never negative.  The cursor of every other view is the
  one it was, and the focus itself stays.
\<close>

theorem scroll_cursor_clamped:
  "scroll_pos (current_focus ctx) (handle_window_scroll ctx d)
     = map_option (\<lambda>q. if q + d <s 0 then 0 else q + d) (scroll_pos (current_focus ctx) ctx)
   \<and> (\<forall>p. scroll_pos (current_focus ctx) (handle_window_scroll ctx d) = Some p \<longrightarrow> 0 \<le> sint p)
   \<and> (\<forall>v. v \<noteq> current_focus ctx \<longrightarrow>
          scroll_pos v (handle_window_scroll ctx d) = scroll_pos v ctx)
   \<and> current_focus (handle_window_scroll ctx d) = current_focus ctx"
proof (intro conjI allI impI)
  show "scroll_pos (current_focus ctx) (handle_window_scroll ctx d)
     = map_option (\<lambda>q. if q + d <s 0 then 0 else q + d) (scroll_pos (current_focus ctx) ctx)"
    by (rule scroll_focused_result)
next
  fix p assume "scroll_pos (current_focus ctx) (handle_window_scroll ctx d) = Some p"
  then show "0 \<le> sint p" by (rule scroll_focused_nonneg)
next
  fix v assume "v \<noteq> current_focus ctx"
  then show "scroll_pos v (handle_window_scroll ctx d) = scroll_pos v ctx"
    by (rule scroll_others_unchanged)
next
  show "current_focus (handle_window_scroll ctx d) = current_focus ctx"
    by (cases "current_focus ctx") (simp_all add: handle_window_scroll_def Let_def)
qed

text \<open>
  The code view has the focus and its cursor is at three: scrolling up by five leaves it
  at zero, scrolling down by two brings it to five, and the stack cursor stays where it
  was.
\<close>

theorem scroll_cursor_clamped_witness:
  "current_focus scrolled_session = FOCUS_CODE
   \<and> scroll_pos FOCUS_CODE scrolled_session = Some 3
   \<and> scroll_pos FOCUS_CODE (handle_window_scroll scrolled_session (- 5)) = Some 0
   \<and> scroll_pos FOCUS_CODE (handle_window_scroll scrolled_session 2) = Some 5
   \<and> 0 \<le> sint (0 :: c_int)
   \<and> FOCUS_STACK \<noteq> current_focus scrolled_session
   \<and> scroll_pos FOCUS_STACK (handle_window_scroll scrolled_session (- 5))
       = scroll_pos FOCUS_STACK scrolled_session"
  using scroll_cursor_clamped [of scrolled_session "- 5"]
    scroll_cursor_clamped [of scrolled_session 2]
  by (simp add: scrolled_session_def init_debugger_def zero_ctx_def Let_def
        handle_window_scroll_def word_sless_alt)

subsection \<open>Commands\<close>

lemma key_codes:
  "key CHR ''q'' = 113" "key CHR ''Q'' = 81" "key CHR ''c'' = 99" "key CHR ''C'' = 67"
  "key CHR ''s'' = 115" "key CHR ''S'' = 83" "key CHR ''b'' = 98" "key CHR ''B'' = 66"
  "key CHR ''r'' = 114" "key CHR ''R'' = 82" "key CHR 0x09 = 9"
  by (simp_all add: key_def)

text \<open>
  C3.  \<^verbatim>\<open>init_debugger\<close> leaves the session stopped, whether or not the mutex could be
  set up.  From any context, F5, \<^verbatim>\<open>c\<close> and \<^verbatim>\<open>C\<close> give the same context with the state
  running; F10, F11, \<^verbatim>\<open>s\<close> and \<^verbatim>\<open>S\<close> give it with the state stepping; \<^verbatim>\<open>q\<close> and \<^verbatim>\<open>Q\<close>
  give it with the \<^verbatim>\<open>running\<close> flag cleared, which ends the main loop, and with the debug
  state it had.  The result is a function of the key and the context, and nothing else of
  the context changes.
\<close>

theorem session_commands:
  "state (snd (init_debugger ok)) = DEBUG_STOPPED
   \<and> handle_input (KEY_F 5) lo ctx = ctx\<lparr>state := DEBUG_RUNNING\<rparr>
   \<and> handle_input (key CHR ''c'') lo ctx = ctx\<lparr>state := DEBUG_RUNNING\<rparr>
   \<and> handle_input (key CHR ''C'') lo ctx = ctx\<lparr>state := DEBUG_RUNNING\<rparr>
   \<and> handle_input (KEY_F 10) lo ctx = ctx\<lparr>state := DEBUG_STEPPING\<rparr>
   \<and> handle_input (KEY_F 11) lo ctx = ctx\<lparr>state := DEBUG_STEPPING\<rparr>
   \<and> handle_input (key CHR ''s'') lo ctx = ctx\<lparr>state := DEBUG_STEPPING\<rparr>
   \<and> handle_input (key CHR ''S'') lo ctx = ctx\<lparr>state := DEBUG_STEPPING\<rparr>
   \<and> handle_input (key CHR ''q'') lo ctx = ctx\<lparr>running := 0\<rparr>
   \<and> handle_input (key CHR ''Q'') lo ctx = ctx\<lparr>running := 0\<rparr>"
  by (simp add: init_debugger_def zero_ctx_def Let_def handle_input_def KEY_F_def key_codes)

subsection \<open>Events\<close>

lemma event_thread_body_state: "state (fst (event_thread_body cc)) = state (fst cc)"
  by (cases cc) (simp add: event_thread_body_def Let_def)

lemma event_thread_body_breakpoints:
  "breakpoints (fst (event_thread_body cc)) = breakpoints (fst cc)"
  by (cases cc) (simp add: event_thread_body_def Let_def)

text \<open>The front end itself has no command that changes its list of breakpoints.\<close>

lemma handle_input_breakpoints: "breakpoints (handle_input ch lo ctx) = breakpoints ctx"
  by (simp add: handle_input_def Let_def load_bpf_program_def switch_window_focus_def
        split: bpf_load_outcome.splits)

lemma handle_window_scroll_breakpoints:
  "breakpoints (handle_window_scroll ctx d) = breakpoints ctx"
  by (cases "current_focus ctx") (simp_all add: handle_window_scroll_def Let_def)

lemma apply_step_breakpoints: "breakpoints (fst (apply_step st cc)) = breakpoints (fst cc)"
  by (cases st; cases cc)
     (simp_all add: handle_input_breakpoints handle_window_scroll_breakpoints
        event_thread_body_breakpoints [of "(a, b)" for a b, simplified])

lemma run_steps_breakpoints: "breakpoints (fst (run_steps steps cc)) = breakpoints (fst cc)"
  by (induction steps arbitrary: cc) (simp_all add: apply_step_breakpoints)

lemma session_breakpoints: "breakpoints (fst (run_steps steps session_start)) = []"
  by (simp add: run_steps_breakpoints session_start_def init_debugger_def zero_ctx_def Let_def)

text \<open>
  C4.  No turn of the event thread changes the debug state or the breakpoint list,
  whatever the state, the list and the counter; so no number of turns does.  In the
  running session, however the keys, the turns and the scrolls follow one another after
  start-up, the breakpoint list is empty, so the address an event brings is never that of
  an enabled breakpoint: the exception of the claim does not arise, and an event applied
  to a stopped session leaves it stopped.
\<close>

theorem event_keeps_debug_state:
  "state (fst (event_thread_turns n cc)) = state (fst cc)
   \<and> breakpoints (fst (event_thread_turns n cc)) = breakpoints (fst cc)
   \<and> breakpoints (fst (run_steps steps session_start)) = []
   \<and> \<not> at_enabled_breakpoint (fst (event_thread_body (run_steps steps session_start)))
   \<and> (state (fst (run_steps steps session_start)) = DEBUG_STOPPED \<longrightarrow>
        state (fst (event_thread_body (run_steps steps session_start))) = DEBUG_STOPPED)"
proof (intro conjI impI)
  show "state (fst (event_thread_turns n cc)) = state (fst cc)"
    by (induction n arbitrary: cc) (simp_all add: event_thread_body_state)
  show "breakpoints (fst (event_thread_turns n cc)) = breakpoints (fst cc)"
    by (induction n arbitrary: cc) (simp_all add: event_thread_body_breakpoints)
  show "breakpoints (fst (run_steps steps session_start)) = []"
    by (rule session_breakpoints)
  show "\<not> at_enabled_breakpoint (fst (event_thread_body (run_steps steps session_start)))"
    by (simp add: at_enabled_breakpoint_def event_thread_body_breakpoints session_breakpoints)
next
  assume "state (fst (run_steps steps session_start)) = DEBUG_STOPPED"
  then show "state (fst (event_thread_body (run_steps steps session_start))) = DEBUG_STOPPED"
    by (simp add: event_thread_body_state)
qed

text \<open>
  A session that is stopped when an event arrives: one turn, then the tab key.  The next
  turn brings the address two instructions past the start and leaves the session stopped.
\<close>

theorem event_keeps_debug_state_witness:
  "state (fst (run_steps [Event_turn, Key_press (key CHR 0x09) Open_failed] session_start))
     = DEBUG_STOPPED
   \<and> state (fst (event_thread_body
        (run_steps [Event_turn, Key_press (key CHR 0x09) Open_failed] session_start)))
       = DEBUG_STOPPED
   \<and> current_addr (fst (event_thread_body
        (run_steps [Event_turn, Key_press (key CHR 0x09) Open_failed] session_start)))
       = 0xffffffff80000008
   \<and> current_focus (fst (event_thread_body
        (run_steps [Event_turn, Key_press (key CHR 0x09) Open_failed] session_start)))
       = FOCUS_MEMORY"
  using event_keeps_debug_state
    [of 1 session_start "[Event_turn, Key_press (key CHR 0x09) Open_failed]"]
  by (simp add: session_start_def init_debugger_def zero_ctx_def Let_def event_thread_body_def
        handle_input_def KEY_F_def KEY_MOUSE_def key_codes switch_window_focus_def
        focus_of_num_def)


subsection \<open>The mutex and the command handler\<close>

lemma event_thread_locks:
  "writes_locked False (event_thread_trace cc) \<and> io_unlocked False (event_thread_trace cc)"
  by (simp add: event_thread_trace_def)

lemma update_all_windows_io_locked: "\<not> io_unlocked False update_all_windows_trace"
  by (simp add: update_all_windows_trace_def eval_nat_numeral)

text \<open>
  C8 does not hold of the code.  On the key \<^verbatim>\<open>c\<close> the handler reads the key and writes
  \<^verbatim>\<open>state\<close>, and the mutex is not taken in between: the write happens outside the lock.
  On a resize it calls \<^verbatim>\<open>update_all_windows\<close>, which draws with the mutex held.
\<close>

theorem handle_input_writes_unlocked:
  "handle_input_trace (key CHR ''c'') Open_failed (snd (init_debugger True))
     = [Terminal_io, Ctx_write]
   \<and> \<not> writes_locked False
         (handle_input_trace (key CHR ''c'') Open_failed (snd (init_debugger True)))
   \<and> \<not> io_unlocked False
         (handle_input_trace KEY_RESIZE Open_failed (snd (init_debugger True)))"
  by (simp add: handle_input_trace_def KEY_F_def KEY_RESIZE_def KEY_MOUSE_def key_codes
        update_all_windows_trace_def eval_nat_numeral)

section \<open>Properties of the probes\<close>

subsection \<open>The copy of the function name\<close>

lemma terminated_split:
  assumes "NUL \<in> set s"
  shows "\<exists>junk. s = takeWhile (\<lambda>c. c \<noteq> NUL) s @ NUL # junk"
proof -
  have "dropWhile (\<lambda>c. c \<noteq> NUL) s \<noteq> []" using assms by simp
  then obtain x junk where d: "dropWhile (\<lambda>c. c \<noteq> NUL) s = x # junk"
    by (cases "dropWhile (\<lambda>c. c \<noteq> NUL) s") auto
  then have "x = NUL" using hd_dropWhile [of "\<lambda>c. c \<noteq> NUL" s] by auto
  with d have "s = takeWhile (\<lambda>c. c \<noteq> NUL) s @ NUL # junk"
    using takeWhile_dropWhile_id [of "\<lambda>c. c \<noteq> NUL" s] by simp
  then show ?thesis ..
qed

lemma takeWhile_text: "NUL \<notin> set t \<Longrightarrow> takeWhile (\<lambda>c. c \<noteq> NUL) (t @ NUL # junk) = t"
  by (induction t) auto

lemma sint_pred:
  assumes "1 \<le> sint (x :: c_int)"
  shows "sint (x - 1) = sint x - 1"
proof -
  have "sint x < 2 ^ 31" using sint_lt [of x] by simp
  then have "signed_take_bit 31 (sint x - 1) = sint x - 1"
    using assms by (intro signed_take_bit_int_eq_self) simp_all
  then show ?thesis by (simp add: sint_word_ariths)
qed

lemma safe_strcpy_loop_text:
  assumes "NUL \<notin> set t" and "sint (max_len - 1) < int (length dst)"
    and "i \<le> min (length t) (nat (sint (max_len - 1)))"
  shows "safe_strcpy_loop dst (Some (t @ NUL # junk)) max_len i
         = Inr (take i dst @ take (min (length t) (nat (sint (max_len - 1))) - i) (drop i t)
                  @ drop (min (length t) (nat (sint (max_len - 1)))) dst,
                min (length t) (nat (sint (max_len - 1))))"
  using assms
proof (induction "length t - i" arbitrary: i dst)
  case 0
  then have i: "i = length t" by simp
  show ?case
  proof (cases "int i < sint (max_len - 1)")
    case True
    then have n: "min (length t) (nat (sint (max_len - 1))) = length t" using i by simp
    show ?thesis using True i
      by (subst safe_strcpy_loop.simps) (simp add: read_at_def n nth_append)
  next
    case False
    then have n: "min (length t) (nat (sint (max_len - 1))) = length t"
      using i "0.prems"(3) by simp
    show ?thesis using False i
      by (subst safe_strcpy_loop.simps) (simp add: n)
  qed
next
  case (Suc k)
  let ?n = "min (length t) (nat (sint (max_len - 1)))"
  from Suc have lt: "i < length t" by simp
  show ?case
  proof (cases "int i < sint (max_len - 1)")
    case False
    with Suc.prems have "i = ?n" by (simp add: min_def split: if_splits)
    then show ?thesis using False
      by (subst safe_strcpy_loop.simps) simp
  next
    case True
    then have in': "Suc i \<le> ?n" using lt by simp
    have idst: "i < length dst" using True Suc.prems(2) by simp
    have ti: "t ! i \<noteq> NUL" using Suc.prems(1) lt by (metis nth_mem)
    have k: "k = length t - Suc i" using Suc.hyps(2) by simp
    have len: "sint (max_len - 1) < int (length (dst[i := t ! i]))" using Suc.prems(2) by simp
    have IH: "safe_strcpy_loop (dst[i := t ! i]) (Some (t @ NUL # junk)) max_len (Suc i)
               = Inr (take (Suc i) (dst[i := t ! i]) @ take (?n - Suc i) (drop (Suc i) t)
                        @ drop ?n (dst[i := t ! i]), ?n)"
      using Suc.hyps(1) [OF k Suc.prems(1) len in'] .
    have a: "take (Suc i) (dst[i := t ! i]) = take i dst @ [t ! i]"
      using idst by (simp add: take_Suc_conv_app_nth)
    have b: "drop ?n (dst[i := t ! i]) = drop ?n dst" using in' by simp
    have c: "take (?n - i) (drop i t) = t ! i # take (?n - Suc i) (drop (Suc i) t)"
    proof -
      have "drop i t = t ! i # drop (Suc i) t" using lt by (simp add: Cons_nth_drop_Suc)
      moreover have "?n - i = Suc (?n - Suc i)" using in' by arith
      ultimately show ?thesis by simp
    qed
    show ?thesis
      apply (subst safe_strcpy_loop.simps)
      using True lt idst ti
      apply (simp add: read_at_def write_at_def nth_append IH)
      apply (simp only: a b c)
      apply simp
      done
  qed
qed

lemma safe_strcpy_null:
  assumes "1 \<le> sint max_len" "sint max_len \<le> int (length dst)"
  shows "safe_strcpy dst None max_len = Inr (NUL # drop 1 dst)"
proof -
  have "safe_strcpy_loop dst None max_len 0 = Inr (dst, 0)"
    by (subst safe_strcpy_loop.simps) simp
  moreover have "dst \<noteq> []" using assms by auto
  ultimately show ?thesis
    by (cases dst) (simp_all add: safe_strcpy_def write_at_def)
qed

lemma safe_strcpy_text:
  assumes "NUL \<notin> set t" "1 \<le> sint max_len" "sint max_len \<le> int (length dst)"
  shows "safe_strcpy dst (Some (t @ NUL # junk)) max_len
         = Inr (take (min (length t) (nat (sint max_len - 1))) t @ NUL
                  # drop (min (length t) (nat (sint max_len - 1)) + 1) dst)"
proof -
  let ?n = "min (length t) (nat (sint max_len - 1))"
  have p: "sint (max_len - 1) = sint max_len - 1" by (rule sint_pred [OF assms(2)])
  have "?n \<le> nat (sint max_len - 1)" by simp
  moreover have "nat (sint max_len - 1) < length dst" using assms(2,3) by linarith
  ultimately have n: "?n < length dst" by (rule le_less_trans)
  have room: "sint (max_len - 1) < int (length dst)" using assms(3) p by simp
  have "safe_strcpy_loop dst (Some (t @ NUL # junk)) max_len 0
          = Inr (take ?n t @ drop ?n dst, ?n)"
    using safe_strcpy_loop_text [OF assms(1) room, of 0 junk] by (simp add: p)
  moreover have "(take ?n t @ drop ?n dst)[?n := NUL] = take ?n t @ NUL # drop (?n + 1) dst"
  proof -
    have l: "length (take ?n t) = ?n" by simp
    have "(take ?n t @ drop ?n dst)[?n := NUL] = take ?n t @ (drop ?n dst)[0 := NUL]"
      using l by (simp add: list_update_append)
    moreover have "drop ?n dst = dst ! ?n # drop (?n + 1) dst"
      using n by (simp add: Cons_nth_drop_Suc)
    ultimately show ?thesis by simp
  qed
  moreover have "?n < length (take ?n t @ drop ?n dst)" using n by simp
  ultimately show ?thesis
    by (simp add: safe_strcpy_def write_at_def del: length_append)
qed

lemma safe_strcpy_c_text:
  assumes "1 \<le> sint max_len" "sint max_len \<le> int (length dst)" "terminated src"
  shows "safe_strcpy dst src max_len
         = Inr (take (min (length (c_text src)) (nat (sint max_len - 1))) (c_text src) @ NUL
                  # drop (min (length (c_text src)) (nat (sint max_len - 1)) + 1) dst)"
proof (cases src)
  case None
  then show ?thesis using safe_strcpy_null [OF assms(1,2)] by (simp add: c_text_def)
next
  case (Some s)
  then have "NUL \<in> set s" using assms(3) by (simp add: terminated_def)
  then obtain junk where s: "s = takeWhile (\<lambda>c. c \<noteq> NUL) s @ NUL # junk"
    using terminated_split by blast
  have t: "NUL \<notin> set (takeWhile (\<lambda>c. c \<noteq> NUL) s)"
    by (auto dest: set_takeWhileD)
  show ?thesis
    using safe_strcpy_text [OF t assms(1,2), of junk] s Some
    by (simp add: c_text_def)
qed

lemma takeWhile_no_NUL: "NUL \<notin> set (takeWhile (\<lambda>c. c \<noteq> NUL) s)"
  by (auto dest: set_takeWhileD)

lemma up_to_terminator_text:
  "terminated (up_to_terminator src) \<and> c_text (up_to_terminator src) = c_text src"
  by (cases src)
     (simp_all add: terminated_def up_to_terminator_def c_text_def
        takeWhile_text [OF takeWhile_no_NUL])

lemma send_debug_event_untraced:
  "should_trace_process env (control_map_elem env) = 0 \<Longrightarrow> send_debug_event env etype f w = Inr w"
  by (simp add: send_debug_event_def get_debugger_control_def)

lemma name_field:
  assumes "n \<le> 63"
  shows "take n t @ NUL # drop (n + 1) (replicate 64 NUL) = take n t @ replicate (64 - n) NUL"
proof -
  have e: "64 - n = Suc (63 - n)" using assms by arith
  have "drop (n + 1) (replicate 64 NUL) = replicate (63 - n) NUL" by simp
  then show ?thesis by (simp only: e replicate_Suc)
qed

lemma send_debug_event_traced:
  assumes "should_trace_process env (control_map_elem env) \<noteq> 0" and "terminated f"
  shows "send_debug_event env etype f w =
           Inr (w\<lparr>events := events w @
             [\<lparr>timestamp = bpf_ktime_get_ns env,
               pid = ucast (drop_bit 32 (bpf_get_current_pid_tgid env)),
               tid = ucast (bpf_get_current_pid_tgid env AND 0xFFFFFFFF),
               cpu = bpf_get_smp_processor_id env,
               event_type = etype,
               function_name = take 63 (c_text f)
                  @ replicate (64 - min (length (c_text f)) 63) NUL,
               instruction_pointer = 0\<rparr>]\<rparr>)"
proof (cases f)
  case None
  then show ?thesis using assms(1)
    by (simp add: send_debug_event_def get_debugger_control_def Let_def empty_event_def
          MAX_FUNCTION_NAME_def c_text_def)
next
  case (Some s)
  have "safe_strcpy (replicate 64 NUL) f 64
          = Inr (take (min (length (c_text f)) 63) (c_text f) @ NUL
                  # drop (min (length (c_text f)) 63 + 1) (replicate 64 NUL))"
    using safe_strcpy_c_text [of 64 "replicate 64 NUL" f] assms(2) by simp
  then have "safe_strcpy (replicate 64 NUL) f 64
          = Inr (take 63 (c_text f) @ replicate (64 - min (length (c_text f)) 63) NUL)"
    using name_field [of "min (length (c_text f)) 63" "c_text f"] by (simp add: min_def)
  then show ?thesis using assms(1) Some
    by (simp add: send_debug_event_def get_debugger_control_def Let_def empty_event_def
          MAX_FUNCTION_NAME_def)
qed

lemma send_debug_event_emits:
  assumes "should_trace_process env (control_map_elem env) \<noteq> 0" and "terminated f"
  shows "\<exists>e. send_debug_event env etype f w = Inr (w\<lparr>events := events w @ [e]\<rparr>)
           \<and> function_name e
               = take 63 (c_text f) @ replicate (64 - min (length (c_text f)) 63) NUL
           \<and> event_type e = etype
           \<and> pid e = ucast (drop_bit 32 (bpf_get_current_pid_tgid env))"
  unfolding send_debug_event_traced [OF assms, of etype w]
  by (intro exI conjI) (rule refl, simp_all)

text \<open>
  C5.  Let the destination have room for \<open>max_len \<ge> 1\<close> bytes and the source be null or
  hold a terminator, and let \<open>n\<close> be the smaller of the length of the source text and
  \<open>max_len - 1\<close>.  Then \<^verbatim>\<open>safe_strcpy\<close> succeeds; the destination holds the first \<open>n\<close>
  characters of the text, then a terminator at index \<open>n\<close>, and is otherwise as before.  The
  copy gives the same on the source cut off right after its first terminator, where any
  read beyond the terminator would be out of bounds: it reads none.  And
  \<^verbatim>\<open>send_debug_event\<close> on such a name succeeds and either emits nothing or one event whose
  name field has 64 bytes, holds a terminator, and has a text of at most 63 characters.
\<close>

theorem function_name_copy:
  assumes "1 \<le> sint max_len" and "sint max_len \<le> int (length dst)" and "terminated src"
  shows "(let n = min (length (c_text src)) (nat (sint max_len - 1))
          in safe_strcpy dst src max_len = Inr (take n (c_text src) @ NUL # drop (n + 1) dst)
             \<and> safe_strcpy dst (up_to_terminator src) max_len = safe_strcpy dst src max_len)
         \<and> (\<exists>w'. send_debug_event env etype src w = Inr w'
               \<and> (w' = w
                  \<or> (\<exists>e. w' = w\<lparr>events := events w @ [e]\<rparr>
                        \<and> length (function_name e) = 64
                        \<and> NUL \<in> set (function_name e)
                        \<and> length (c_text (Some (function_name e))) \<le> 63)))"
proof (intro conjI)
  have a: "safe_strcpy dst src max_len
         = Inr (take (min (length (c_text src)) (nat (sint max_len - 1))) (c_text src) @ NUL
                  # drop (min (length (c_text src)) (nat (sint max_len - 1)) + 1) dst)"
    by (rule safe_strcpy_c_text [OF assms])
  have b: "safe_strcpy dst (up_to_terminator src) max_len
         = Inr (take (min (length (c_text src)) (nat (sint max_len - 1))) (c_text src) @ NUL
                  # drop (min (length (c_text src)) (nat (sint max_len - 1)) + 1) dst)"
    using safe_strcpy_c_text [OF assms(1,2), of "up_to_terminator src"] up_to_terminator_text [of src]
    by simp
  show "let n = min (length (c_text src)) (nat (sint max_len - 1))
        in safe_strcpy dst src max_len = Inr (take n (c_text src) @ NUL # drop (n + 1) dst)
           \<and> safe_strcpy dst (up_to_terminator src) max_len = safe_strcpy dst src max_len"
    using a b by (simp add: Let_def)
next
  show "\<exists>w'. send_debug_event env etype src w = Inr w'
               \<and> (w' = w
                  \<or> (\<exists>e. w' = w\<lparr>events := events w @ [e]\<rparr>
                        \<and> length (function_name e) = 64
                        \<and> NUL \<in> set (function_name e)
                        \<and> length (c_text (Some (function_name e))) \<le> 63))"
  proof (cases "should_trace_process env (control_map_elem env) = 0")
    case True
    then show ?thesis by (simp add: send_debug_event_untraced)
  next
    case False
    let ?name = "take 63 (c_text src) @ replicate (64 - min (length (c_text src)) 63) NUL"
    have len: "length ?name = 64" by (simp add: min_def)
    have nul: "NUL \<in> set ?name" by (simp add: min_def)
    have notin: "NUL \<notin> set (take 63 (c_text src))"
      by (cases src) (auto simp: c_text_def dest: in_set_takeD set_takeWhileD)
    have "64 - min (length (c_text src)) 63 = Suc (63 - min (length (c_text src)) 63)"
      by arith
    then have "?name = take 63 (c_text src)
                 @ NUL # replicate (63 - min (length (c_text src)) 63) NUL"
      by (simp only: replicate_Suc)
    then have "takeWhile (\<lambda>c. c \<noteq> NUL) ?name = take 63 (c_text src)"
      by (simp only: takeWhile_text [OF notin])
    then have tlen: "length (c_text (Some ?name)) \<le> 63" by (simp add: c_text_def)
    obtain e where r: "send_debug_event env etype src w = Inr (w\<lparr>events := events w @ [e]\<rparr>)"
      and fe: "function_name e = ?name"
      using send_debug_event_emits [OF False assms(3)] by blast
    have "length (function_name e) = 64 \<and> NUL \<in> set (function_name e)
            \<and> length (c_text (Some (function_name e))) \<le> 63"
      using len nul tlen by (simp only: fe)
    then show ?thesis using r by blast
  qed
qed

text \<open>The call from \<^verbatim>\<open>trace_kmalloc_entry\<close>: nine characters, the terminator, the zeros.\<close>

theorem function_name_copy_witness:
  "1 \<le> sint MAX_FUNCTION_NAME
   \<and> sint MAX_FUNCTION_NAME \<le> int (length (function_name empty_event))
   \<and> terminated (Some (c_literal ''__kmalloc''))
   \<and> safe_strcpy (function_name empty_event) (Some (c_literal ''__kmalloc'')) MAX_FUNCTION_NAME
       = Inr (''__kmalloc'' @ NUL # replicate 54 NUL)"
proof -
  have h1: "1 \<le> sint MAX_FUNCTION_NAME" by (simp add: MAX_FUNCTION_NAME_def)
  have h2: "sint MAX_FUNCTION_NAME \<le> int (length (function_name empty_event))"
    by (simp add: MAX_FUNCTION_NAME_def empty_event_def)
  have h3: "terminated (Some (c_literal ''__kmalloc''))"
    by (simp add: terminated_def c_literal_def)
  show ?thesis
    using h1 h2 h3 function_name_copy [OF h1 h2 h3, of sample_env 0 empty_world]
    by (simp add: Let_def c_text_def c_literal_def MAX_FUNCTION_NAME_def empty_event_def)
qed

subsection \<open>The gate and the emission\<close>

lemma should_trace_process_zero:
  "should_trace_process env ctrl = 0 \<longleftrightarrow>
     (case ctrl of None \<Rightarrow> True
      | Some c \<Rightarrow> global_enable c = 0
          \<or> (target_pid c \<noteq> 0
              \<and> target_pid c \<noteq> ucast (drop_bit 32 (bpf_get_current_pid_tgid env))))"
  by (simp add: should_trace_process_def Let_def split: option.splits)

lemma enhanced_probe_disabled:
  "debug_control_elem env = None \<or> debug_control_elem env = Some 0
     \<Longrightarrow> enhanced_breakpoint_probe env w = w"
  by (auto simp: enhanced_breakpoint_probe_def)

lemma enhanced_probe_full:
  "\<not> bpf_ringbuf_reserve_ok env \<Longrightarrow> enhanced_breakpoint_probe env w = w"
  by (simp add: enhanced_breakpoint_probe_def split: option.splits)

lemma read_user_stack_loop_eq:
  assumes "length sd = 8" and "i \<le> 8" and "8 \<le> count"
  shows "read_user_stack_loop env sp sd count i
         = take i sd @ map (\<lambda>j. Some (case bpf_probe_read_user env (sp + of_nat (j * 8)) of
                                         None \<Rightarrow> 0 | Some v \<Rightarrow> v)) [i..<8]"
  using assms
proof (induction "8 - i" arbitrary: i sd)
  case 0
  then have "i = 8" by simp
  then show ?case using 0 by (subst read_user_stack_loop.simps) simp
next
  case (Suc k)
  then have lt: "i < 8" by simp
  let ?x = "Some (case bpf_probe_read_user env (sp + of_nat (i * 8)) of
                    None \<Rightarrow> 0 | Some v \<Rightarrow> v)"
  have k: "k = 8 - Suc i" using Suc.hyps(2) by simp
  have IH: "read_user_stack_loop env sp (sd[i := ?x]) count (Suc i)
         = take (Suc i) (sd[i := ?x])
             @ map (\<lambda>j. Some (case bpf_probe_read_user env (sp + of_nat (j * 8)) of
                                 None \<Rightarrow> 0 | Some v \<Rightarrow> v)) [Suc i..<8]"
    using Suc.hyps(1) [OF k, of "sd[i := ?x]"] Suc.prems lt by simp
  have a: "take (Suc i) (sd[i := ?x]) = take i sd @ [?x]"
    using lt Suc.prems(1) by (simp add: take_Suc_conv_app_nth)
  have b: "[i..<8] = i # [Suc i..<8]" using lt by (simp add: upt_conv_Cons)
  have step: "read_user_stack_loop env sp sd count i
                = read_user_stack_loop env sp (sd[i := ?x]) count (Suc i)"
    using lt Suc.prems(3)
    by (subst read_user_stack_loop.simps) (simp split: option.splits)
  show ?case by (simp only: step IH a b) simp
qed

lemma read_local_loop_eq:
  assumes "length lv = 16" and "i \<le> 16" and "16 \<le> count"
  shows "read_local_loop env fp lv count i
         = take i lv @ map (\<lambda>j. Some (case bpf_probe_read_user env (fp - of_nat ((j + 1) * 8)) of
                                         None \<Rightarrow> 0 | Some v \<Rightarrow> v)) [i..<16]"
  using assms
proof (induction "16 - i" arbitrary: i lv)
  case 0
  then have "i = 16" by simp
  then show ?case using 0 by (subst read_local_loop.simps) simp
next
  case (Suc k)
  then have lt: "i < 16" by simp
  let ?x = "Some (case bpf_probe_read_user env (fp - of_nat ((i + 1) * 8)) of
                    None \<Rightarrow> 0 | Some v \<Rightarrow> v)"
  have k: "k = 16 - Suc i" using Suc.hyps(2) by simp
  have IH: "read_local_loop env fp (lv[i := ?x]) count (Suc i)
         = take (Suc i) (lv[i := ?x])
             @ map (\<lambda>j. Some (case bpf_probe_read_user env (fp - of_nat ((j + 1) * 8)) of
                                 None \<Rightarrow> 0 | Some v \<Rightarrow> v)) [Suc i..<16]"
    using Suc.hyps(1) [OF k, of "lv[i := ?x]"] Suc.prems lt by simp
  have a: "take (Suc i) (lv[i := ?x]) = take i lv @ [?x]"
    using lt Suc.prems(1) by (simp add: take_Suc_conv_app_nth)
  have b: "[i..<16] = i # [Suc i..<16]" using lt by (simp add: upt_conv_Cons)
  have step: "read_local_loop env fp lv count i
                = read_local_loop env fp (lv[i := ?x]) count (Suc i)"
    using lt Suc.prems(3)
    by (subst read_local_loop.simps) (simp split: option.splits)
  show ?case by (simp only: step IH a b) simp
qed

lemma read_user_stack_data_eq:
  "length sd = 8 \<Longrightarrow>
   read_user_stack_data env sd 8
     = map (\<lambda>j. Some (case bpf_probe_read_user env (PT_REGS_SP (ctx_regs env) + of_nat (j * 8)) of
                         None \<Rightarrow> 0 | Some v \<Rightarrow> v)) [0..<8]"
  using read_user_stack_loop_eq [of sd 0 8 env] by (simp add: read_user_stack_data_def)

lemma read_local_variables_eq:
  "length lv = 16 \<Longrightarrow>
   read_local_variables env lv 16
     = map (\<lambda>j. Some (case bpf_probe_read_user env (PT_REGS_FP (ctx_regs env) - of_nat ((j + 1) * 8)) of
                         None \<Rightarrow> 0 | Some v \<Rightarrow> v)) [0..<16]"
  using read_local_loop_eq [of lv 0 16 env] by (simp add: read_local_variables_def)

lemma enhanced_probe_emits:
  assumes "debug_control_elem env = Some en" and "en \<noteq> 0" and "bpf_ringbuf_reserve_ok env"
  shows "\<exists>e. rb (enhanced_breakpoint_probe env w) = rb w @ [e]
           \<and> rb_reserved (enhanced_breakpoint_probe env w) = rb_reserved w + 1
           \<and> events (enhanced_breakpoint_probe env w) = events w
           \<and> initialised e
           \<and> ev_reg e Reg_tp = Some 0
           \<and> ev_reg e Reg_a6 = Some 0 \<and> ev_reg e Reg_a7 = Some 0
           \<and> ev_reg e Reg_t0 = Some 0 \<and> ev_reg e Reg_t1 = Some 0 \<and> ev_reg e Reg_t2 = Some 0
           \<and> ev_reg e Reg_s0 = Some 0 \<and> ev_reg e Reg_s1 = Some 0
           \<and> ev_stack_data e
               = map (\<lambda>j. Some (case bpf_probe_read_user env
                                        (PT_REGS_SP (ctx_regs env) + of_nat (j * 8)) of
                                   None \<Rightarrow> 0 | Some v \<Rightarrow> v)) [0..<8]
           \<and> ev_local_vars e
               = map (\<lambda>j. Some (case bpf_probe_read_user env
                                        (PT_REGS_FP (ctx_regs env) - of_nat ((j + 1) * 8)) of
                                   None \<Rightarrow> 0 | Some v \<Rightarrow> v)) [0..<16]"
  using assms
  by (auto simp: enhanced_breakpoint_probe_def Let_def reserved_slot_def memset_zero_def
        read_user_stack_data_eq read_local_variables_eq initialised_def event_regs_def
        c_literal_def list_all_iff min_def)

text \<open>
  C2, as the code has it.  For a firing of \<^verbatim>\<open>send_debug_event\<close>, the body of the six
  probes of \<^verbatim>\<open>kernel_debugger.bpf.c\<close>: when the control entry has \<^verbatim>\<open>global_enable\<close> zero,
  or a \<^verbatim>\<open>target_pid\<close> that is neither zero nor the current process, the world is returned
  as it was; when \<^verbatim>\<open>global_enable\<close> is set and \<^verbatim>\<open>target_pid\<close> is zero or the current
  process, exactly one event, of the given type and with the current process id, is handed
  to the perf output.  For a firing of \<^verbatim>\<open>enhanced_breakpoint_probe\<close>, whose control entry is
  one word and which has no process filter: when the word is zero the world is returned as
  it was; when it is not zero, one slot is reserved and one record submitted provided the
  ring buffer has room, and otherwise the world is returned as it was.
\<close>

theorem probe_filter:
  "(control_map_elem env = Some c \<longrightarrow>
      global_enable c = 0
        \<or> (target_pid c \<noteq> 0
            \<and> target_pid c \<noteq> ucast (drop_bit 32 (bpf_get_current_pid_tgid env))) \<longrightarrow>
      send_debug_event env etype f w = Inr w)
   \<and> (control_map_elem env = Some c \<longrightarrow> global_enable c \<noteq> 0 \<longrightarrow>
        target_pid c = 0 \<or> target_pid c = ucast (drop_bit 32 (bpf_get_current_pid_tgid env)) \<longrightarrow>
        terminated f \<longrightarrow>
        (\<exists>e. send_debug_event env etype f w = Inr (w\<lparr>events := events w @ [e]\<rparr>)
              \<and> event_type e = etype
              \<and> pid e = ucast (drop_bit 32 (bpf_get_current_pid_tgid env))))
   \<and> (debug_control_elem env = Some 0 \<longrightarrow> enhanced_breakpoint_probe env w = w)
   \<and> (debug_control_elem env = Some en \<longrightarrow> en \<noteq> 0 \<longrightarrow> \<not> bpf_ringbuf_reserve_ok env \<longrightarrow>
        enhanced_breakpoint_probe env w = w)
   \<and> (debug_control_elem env = Some en \<longrightarrow> en \<noteq> 0 \<longrightarrow> bpf_ringbuf_reserve_ok env \<longrightarrow>
        (\<exists>e. rb (enhanced_breakpoint_probe env w) = rb w @ [e]
              \<and> rb_reserved (enhanced_breakpoint_probe env w) = rb_reserved w + 1
              \<and> events (enhanced_breakpoint_probe env w) = events w))"
proof (intro conjI impI)
  assume "control_map_elem env = Some c"
    and "global_enable c = 0
          \<or> (target_pid c \<noteq> 0
              \<and> target_pid c \<noteq> ucast (drop_bit 32 (bpf_get_current_pid_tgid env)))"
  then have "should_trace_process env (control_map_elem env) = 0"
    by (simp add: should_trace_process_zero)
  then show "send_debug_event env etype f w = Inr w" by (rule send_debug_event_untraced)
next
  assume "control_map_elem env = Some c" and "global_enable c \<noteq> 0"
    and "target_pid c = 0 \<or> target_pid c = ucast (drop_bit 32 (bpf_get_current_pid_tgid env))"
    and t: "terminated f"
  then have "should_trace_process env (control_map_elem env) \<noteq> 0"
    by (auto simp: should_trace_process_zero)
  from send_debug_event_emits [OF this t, of etype w]
  show "\<exists>e. send_debug_event env etype f w = Inr (w\<lparr>events := events w @ [e]\<rparr>)
              \<and> event_type e = etype
              \<and> pid e = ucast (drop_bit 32 (bpf_get_current_pid_tgid env))"
    by blast
next
  assume "debug_control_elem env = Some 0"
  then show "enhanced_breakpoint_probe env w = w" by (simp add: enhanced_probe_disabled)
next
  assume "\<not> bpf_ringbuf_reserve_ok env"
  then show "enhanced_breakpoint_probe env w = w" by (rule enhanced_probe_full)
next
  assume "debug_control_elem env = Some en" and "en \<noteq> 0" and "bpf_ringbuf_reserve_ok env"
  from enhanced_probe_emits [OF this, of w]
  show "\<exists>e. rb (enhanced_breakpoint_probe env w) = rb w @ [e]
              \<and> rb_reserved (enhanced_breakpoint_probe env w) = rb_reserved w + 1
              \<and> events (enhanced_breakpoint_probe env w) = events w"
    by blast
qed

theorem probe_filter_witness:
  "send_debug_event unselected_env 0 (Some (c_literal ''__kmalloc'')) empty_world
     = Inr empty_world
   \<and> (\<exists>e. send_debug_event sample_env 0 (Some (c_literal ''__kmalloc'')) empty_world
             = Inr (empty_world\<lparr>events := [e]\<rparr>) \<and> pid e = 100)
   \<and> enhanced_breakpoint_probe (sample_env\<lparr>debug_control_elem := Some 0\<rparr>) empty_world
       = empty_world
   \<and> enhanced_breakpoint_probe full_env empty_world = empty_world
   \<and> (\<exists>e. rb (enhanced_breakpoint_probe sample_env empty_world) = [e])"
proof -
  have t: "terminated (Some (c_literal ''__kmalloc''))"
    by (simp add: terminated_def c_literal_def)
  have a: "send_debug_event unselected_env 0 (Some (c_literal ''__kmalloc'')) empty_world
             = Inr empty_world"
    using probe_filter [of unselected_env "\<lparr>debug_mode = 0, target_pid = 7, global_enable = 1\<rparr>"
        0 "Some (c_literal ''__kmalloc'')" empty_world 1]
    by (simp add: unselected_env_def sample_env_def)
  have b: "\<exists>e. send_debug_event sample_env 0 (Some (c_literal ''__kmalloc'')) empty_world
             = Inr (empty_world\<lparr>events := [e]\<rparr>) \<and> pid e = 100"
    using t probe_filter [of sample_env "\<lparr>debug_mode = 0, target_pid = 100, global_enable = 1\<rparr>"
        0 "Some (c_literal ''__kmalloc'')" empty_world 1]
    by (auto simp: sample_env_def empty_world_def)
  have c: "enhanced_breakpoint_probe (sample_env\<lparr>debug_control_elem := Some 0\<rparr>) empty_world
             = empty_world"
    using probe_filter [of "sample_env\<lparr>debug_control_elem := Some 0\<rparr>"
        "\<lparr>debug_mode = 0, target_pid = 100, global_enable = 1\<rparr>" 0 None empty_world 1]
    by simp
  have d: "enhanced_breakpoint_probe full_env empty_world = empty_world"
    using probe_filter [of full_env "\<lparr>debug_mode = 0, target_pid = 100, global_enable = 1\<rparr>"
        0 None empty_world 1]
    by (simp add: full_env_def sample_env_def)
  have e: "\<exists>e. rb (enhanced_breakpoint_probe sample_env empty_world) = [e]"
    using probe_filter [of sample_env "\<lparr>debug_mode = 0, target_pid = 100, global_enable = 1\<rparr>"
        0 None empty_world 1]
    by (auto simp: sample_env_def empty_world_def)
  from a b c d e show ?thesis by blast
qed

text \<open>
  C2, as the claim has it, fails where it promises an event: with the control word set and
  the ring buffer full, the probe emits nothing.
\<close>

theorem probe_enabled_emits_nothing:
  "debug_control_elem full_env = Some 1
   \<and> rb (enhanced_breakpoint_probe full_env empty_world) = []
   \<and> events (enhanced_breakpoint_probe full_env empty_world) = []"
  by (simp add: full_env_def sample_env_def empty_world_def enhanced_breakpoint_probe_def)

text \<open>
  C7, as the code has it.  When the ring buffer has no room, \<^verbatim>\<open>enhanced_breakpoint_probe\<close>
  returns the world as it was: the event is dropped, nothing is retried, and nothing at all
  is written, a count of drops included.
\<close>

theorem drop_on_full_buffer:
  "\<not> bpf_ringbuf_reserve_ok env \<Longrightarrow> enhanced_breakpoint_probe env w = w"
  by (rule enhanced_probe_full)

theorem drop_on_full_buffer_witness:
  "debug_control_elem full_env = Some 1
   \<and> \<not> bpf_ringbuf_reserve_ok full_env
   \<and> enhanced_breakpoint_probe full_env (enhanced_breakpoint_probe sample_env empty_world)
       = enhanced_breakpoint_probe sample_env empty_world"
proof -
  have h: "\<not> bpf_ringbuf_reserve_ok full_env" by (simp add: full_env_def)
  show ?thesis
    using h drop_on_full_buffer [OF h, of "enhanced_breakpoint_probe sample_env empty_world"]
    by (simp add: full_env_def sample_env_def)
qed

text \<open>
  C7, as the claim has it, fails where it has the drop counted: no quantity of the world
  is one larger after a drop than before it.
\<close>

theorem no_drop_counter:
  "\<not> (\<exists>drops :: bpf_world \<Rightarrow> nat.
         drops (enhanced_breakpoint_probe full_env empty_world) = drops empty_world + 1)"
  by (simp add: full_env_def enhanced_probe_full)

text \<open>
  C10.  When the lookup in \<^verbatim>\<open>control_map\<close> returns null, \<^verbatim>\<open>send_debug_event\<close> and each of
  the six probes built on it return the world as it was, which is what they return when
  the entry has \<^verbatim>\<open>global_enable\<close> zero.  When the lookup in \<^verbatim>\<open>debug_control\<close> returns null,
  \<^verbatim>\<open>enhanced_breakpoint_probe\<close> returns the world as it was, as it does when the word is
  zero.  The return probe of the template reads no control map; it hands nothing to the
  perf output and reserves and submits nothing in the ring buffer.
\<close>

theorem lookup_miss_disables:
  "(control_map_elem env = None \<longrightarrow>
      send_debug_event env etype f w = Inr w
      \<and> generic_kprobe env w = Inr w \<and> generic_kretprobe env w = Inr w
      \<and> trace_taco_sys_mmz_alloc_entry env w = Inr w
      \<and> trace_taco_sys_mmz_alloc_exit env w = Inr w
      \<and> trace_kmalloc_entry env w = Inr w \<and> trace_kmalloc_exit env w = Inr w
      \<and> send_debug_event env etype f w
          = send_debug_event (env\<lparr>control_map_elem := Some (c\<lparr>global_enable := 0\<rparr>)\<rparr>) etype f w)
   \<and> (debug_control_elem env = None \<longrightarrow>
        enhanced_breakpoint_probe env w = w
        \<and> enhanced_breakpoint_probe env w
            = enhanced_breakpoint_probe (env\<lparr>debug_control_elem := Some 0\<rparr>) w)
   \<and> events (enhanced_trace_function_return env w) = events w
   \<and> rb (enhanced_trace_function_return env w) = rb w
   \<and> rb_reserved (enhanced_trace_function_return env w) = rb_reserved w"
  by (simp add: send_debug_event_untraced should_trace_process_zero enhanced_probe_disabled
        generic_kprobe_def generic_kretprobe_def trace_taco_sys_mmz_alloc_entry_def
        trace_taco_sys_mmz_alloc_exit_def trace_kmalloc_entry_def trace_kmalloc_exit_def
        enhanced_trace_function_return_def Let_def)

theorem lookup_miss_disables_witness:
  "control_map_elem no_control_env = None
   \<and> debug_control_elem no_control_env = None
   \<and> trace_kmalloc_entry no_control_env empty_world = Inr empty_world
   \<and> generic_kretprobe no_control_env empty_world = Inr empty_world
   \<and> enhanced_breakpoint_probe no_control_env empty_world = empty_world"
  using lookup_miss_disables [of no_control_env 0 None empty_world]
  by (simp add: no_control_env_def)

subsection \<open>The emitted record\<close>

text \<open>
  C6.  When \<^verbatim>\<open>enhanced_breakpoint_probe\<close> emits, it submits one record, and every field of
  that record has been written: the identifiers, the names, the eighteen registers, the
  eight stack slots and the sixteen local-variable slots.  The registers the probe cannot
  read (\<^verbatim>\<open>tp\<close>, \<^verbatim>\<open>a6\<close>, \<^verbatim>\<open>a7\<close>, \<^verbatim>\<open>t0\<close> to \<^verbatim>\<open>t2\<close>, \<^verbatim>\<open>s0\<close>, \<^verbatim>\<open>s1\<close>) hold zero; stack slot
  \<open>j\<close> holds the eight bytes at \<open>sp + 8 j\<close>, and local-variable slot \<open>j\<close> those at
  \<open>fp - 8 (j + 1)\<close>, or zero where the read faults.
\<close>

theorem emitted_event_initialised:
  assumes "debug_control_elem env = Some en" and "en \<noteq> 0" and "bpf_ringbuf_reserve_ok env"
  shows "\<exists>e. rb (enhanced_breakpoint_probe env w) = rb w @ [e]
           \<and> initialised e
           \<and> ev_reg e Reg_tp = Some 0
           \<and> ev_reg e Reg_a6 = Some 0 \<and> ev_reg e Reg_a7 = Some 0
           \<and> ev_reg e Reg_t0 = Some 0 \<and> ev_reg e Reg_t1 = Some 0 \<and> ev_reg e Reg_t2 = Some 0
           \<and> ev_reg e Reg_s0 = Some 0 \<and> ev_reg e Reg_s1 = Some 0
           \<and> ev_stack_data e
               = map (\<lambda>j. Some (case bpf_probe_read_user env
                                        (PT_REGS_SP (ctx_regs env) + of_nat (j * 8)) of
                                   None \<Rightarrow> 0 | Some v \<Rightarrow> v)) [0..<8]
           \<and> ev_local_vars e
               = map (\<lambda>j. Some (case bpf_probe_read_user env
                                        (PT_REGS_FP (ctx_regs env) - of_nat ((j + 1) * 8)) of
                                   None \<Rightarrow> 0 | Some v \<Rightarrow> v)) [0..<16]"
  using enhanced_probe_emits [OF assms, of w] by blast

theorem emitted_event_initialised_witness:
  "debug_control_elem sample_env = Some 1
   \<and> bpf_ringbuf_reserve_ok sample_env
   \<and> (\<exists>e. rb (enhanced_breakpoint_probe sample_env empty_world) = [e]
          \<and> initialised e
          \<and> ev_reg e Reg_tp = Some 0
          \<and> ev_stack_data e
              = [Some 42, Some 0, Some 0, Some 0, Some 0, Some 0, Some 0, Some 0]
          \<and> ev_local_vars e
              = [Some 0, Some 0, Some 0, Some 0, Some 0, Some 0, Some 0, Some 42,
                 Some 0, Some 0, Some 0, Some 0, Some 0, Some 0, Some 0, Some 0])"
proof -
  have h1: "debug_control_elem sample_env = Some 1" by (simp add: sample_env_def)
  have h2: "(1 :: u32) \<noteq> 0" by simp
  have h3: "bpf_ringbuf_reserve_ok sample_env" by (simp add: sample_env_def)
  have u8: "[0..<8] = [0, 1, 2, 3, 4, 5, 6, 7 :: nat]" by code_simp
  have u16: "[0..<16] = [0, 1, 2, 3, 4, 5, 6, 7, 8, 9, 10, 11, 12, 13, 14, 15 :: nat]"
    by code_simp
  have s: "map (\<lambda>j. Some (case bpf_probe_read_user sample_env
                                        (PT_REGS_SP (ctx_regs sample_env) + of_nat (j * 8)) of
                                   None \<Rightarrow> 0 | Some v \<Rightarrow> v)) [0..<8]
           = [Some 42, Some 0, Some 0, Some 0, Some 0, Some 0, Some 0, Some 0]"
    by (simp add: sample_env_def u8 u16)
  have l: "map (\<lambda>j. Some (case bpf_probe_read_user sample_env
                                        (PT_REGS_FP (ctx_regs sample_env) - of_nat ((j + 1) * 8)) of
                                   None \<Rightarrow> 0 | Some v \<Rightarrow> v)) [0..<16]
           = [Some 0, Some 0, Some 0, Some 0, Some 0, Some 0, Some 0, Some 42,
                 Some 0, Some 0, Some 0, Some 0, Some 0, Some 0, Some 0, Some 0]"
    by (simp add: sample_env_def u8 u16)
  show ?thesis
    using h1 h3 emitted_event_initialised [OF h1 h2 h3, of empty_world]
    by (simp only: s l) (auto simp: empty_world_def)
qed

section \<open>Properties of the breakpoint manager\<close>

lemma reconciled_reconcile: "reconciled (reconcile s)"
  by (simp add: reconciled_def reconcile_def any_enabled_def)

lemma bm_apply_reconciled: "bm_apply se op s = Inr s' \<Longrightarrow> reconciled s'"
  by (cases op)
     (auto simp: bm_add_def bm_remove_def bm_toggle_def reconciled_reconcile split: if_splits)

lemma bm_apply_error_keeps: "bm_apply se op s = Inl e \<Longrightarrow> bm_step se op s = s"
  by (simp add: bm_step_def)

lemma bm_step_reconciled: "reconciled s \<Longrightarrow> reconciled (bm_step se op s)"
  by (cases "bm_apply se op s") (simp_all add: bm_step_def bm_apply_reconciled)

lemma bm_trace_reconciled: "reconciled s \<Longrightarrow> list_all reconciled (bm_trace se ops s)"
  by (induction ops arbitrary: s) (simp_all add: Let_def bm_step_reconciled)

lemma bm_init_reconciled: "reconciled bm_init"
  by (simp add: reconciled_def bm_init_def any_enabled_def)

text \<open>
  C1, on the operations as the specification describes them.  Along every sequence of
  \<open>add\<close>, \<open>remove\<close> and \<open>toggle\<close>, from the manager at start-up or from any state in
  which \<open>global_enable\<close> agrees with the set, the state after each operation has
  \<open>global_enable\<close> set iff at least one breakpoint is enabled.  An operation that succeeds
  establishes this within its own step, whatever the state before; one that fails
  changes nothing.
\<close>

theorem breakpoint_reconciliation:
  "(reconciled s \<longrightarrow> list_all reconciled (bm_trace starts_enabled ops s))
   \<and> list_all reconciled (bm_trace starts_enabled ops bm_init)
   \<and> (\<forall>s'. bm_apply starts_enabled op s = Inr s' \<longrightarrow> reconciled s')
   \<and> (\<forall>e. bm_apply starts_enabled op s = Inl e \<longrightarrow> bm_step starts_enabled op s = s)"
  by (simp add: bm_trace_reconciled bm_init_reconciled bm_apply_reconciled bm_apply_error_keeps)

text \<open>
  The sample session, state by state: the value of \<open>global_enable\<close> and the listed
  breakpoints after each command.
\<close>

theorem breakpoint_reconciliation_witness:
  "reconciled bm_init
   \<and> map (\<lambda>s. (global_enable (control s), map (\<lambda>b. (addr b, enabled b, symbol b)) (bm_list s)))
        (bm_trace True sample_ops bm_init)
      = [(1, [(0x1000, 1, ''foo'')]),
         (1, [(0x1000, 1, ''foo'')]),
         (0, [(0x1000, 0, ''foo'')]),
         (1, [(0x800, 1, ''baz''), (0x1000, 0, ''foo'')]),
         (0, [(0x1000, 0, ''foo'')]),
         (0, []),
         (0, [])]
   \<and> list_all reconciled (bm_trace True sample_ops bm_init)
   \<and> bm_apply True (Remove 0x1000) bm_init = Inl BreakpointNotFound
   \<and> bm_step True (Remove 0x1000) bm_init = bm_init
   \<and> bm_apply True (Add 0x1000 ''foo'') bm_init
       = Inr \<lparr>bps = [\<lparr>addr = 0x1000, enabled = 1, symbol = ''foo''\<rparr>],
              control = \<lparr>debug_mode = 0, target_pid = 0, global_enable = 1\<rparr>\<rparr>
   \<and> reconciled \<lparr>bps = [\<lparr>addr = 0x1000, enabled = 1, symbol = ''foo''\<rparr>],
              control = \<lparr>debug_mode = 0, target_pid = 0, global_enable = 1\<rparr>\<rparr>"
  using breakpoint_reconciliation [of bm_init True sample_ops "Add 0x1000 ''foo''"]
    breakpoint_reconciliation [of bm_init True sample_ops "Remove 0x1000"]
  by (simp add: sample_ops_def bm_init_def bm_step_def bm_add_def bm_remove_def bm_toggle_def
        has_breakpoint_def any_enabled_def reconcile_def bm_list_def Let_def reconciled_def)


end
